theory Spec2Isabelle
  imports Main
begin

section \<open>Strings and formatting\<close>

text \<open>
  A Go \<^verbatim>\<open>string\<close> is a sequence of bytes: \<^verbatim>\<open>len(s)\<close> counts bytes and
  \<^verbatim>\<open>s[a:b]\<close> slices bytes. It is modelled by \<^typ>\<open>string\<close>, whose characters are
  bytes as well; a literal of the source outside ASCII is written as its UTF-8 bytes.
\<close>

definition digit_char :: "nat \<Rightarrow> char" where
  "digit_char d = ''0123456789'' ! d"

text \<open>\<^verbatim>\<open>fmt.Sprintf("%d", n)\<close> for a non-negative \<^verbatim>\<open>n\<close>.\<close>

function Sprintf_d :: "nat \<Rightarrow> string" where
  "Sprintf_d n = (if n < 10 then [digit_char n] else Sprintf_d (n div 10) @ [digit_char (n mod 10)])"
  by pat_completeness auto
termination
  by (relation "measure id") auto

declare Sprintf_d.simps [simp del]

section \<open>The data the orchestrator reads\<close>

text \<open>
  \<^verbatim>\<open>Source\<close>, \<^verbatim>\<open>Config\<close> and \<^verbatim>\<open>ChatMessage\<close> are declared outside the files at
  hand; the records hold the fields that \<^verbatim>\<open>agent.go\<close> and the server read.
\<close>

record Source =
  ID :: string
  Name :: string
  Type :: string
  Content :: string

section \<open>Prompt assembly of \<^verbatim>\<open>Agent.GenerateTransformation\<close>\<close>

text \<open>The default of 100k that replaces a non-positive \<^verbatim>\<open>MaxContextLength\<close>.\<close>

definition context_limit :: "int \<Rightarrow> int" where
  "context_limit MaxContextLength = (if MaxContextLength \<le> 0 then 100000 else MaxContextLength)"

text \<open>
  The loop \<^verbatim>\<open>for i, src := range sources\<close> over the builder \<^verbatim>\<open>sourceContext\<close>:
  \<open>i\<close> is the index of the head of the remaining sources, \<open>sb\<close> what has been written.
\<close>

fun sourceContext_loop :: "int \<Rightarrow> nat \<Rightarrow> Source list \<Rightarrow> string \<Rightarrow> string" where
  "sourceContext_loop mcl i [] sb = sb"
| "sourceContext_loop mcl i (src # rest) sb =
     (let sb1 = sb @ ''\<newline>## Source '' @ Sprintf_d (i + 1) @ '': '' @ Name src @ ''\<newline>'';
          limit = context_limit mcl;
          sb2 =
            (if Content src \<noteq> '''' then
               (if int (length (Content src)) \<le> limit then sb1 @ Content src
                else sb1 @ take (nat limit) (Content src)
                       @ ''\<newline>... [Content truncated, total length: ''
                       @ Sprintf_d (length (Content src)) @ '']'')
             else sb1 @ ''[Source content: '' @ Name src @ '', type: '' @ Type src @ '']'')
      in sourceContext_loop mcl (i + 1) rest (sb2 @ ''\<newline>''))"

definition sourceContext :: "int \<Rightarrow> Source list \<Rightarrow> string" where
  "sourceContext mcl sources = sourceContext_loop mcl 0 sources ''''"

subsection \<open>The section of one source, as the specification words it\<close>

definition truncation_marker :: "nat \<Rightarrow> string" where
  "truncation_marker len = ''\<newline>... [Content truncated, total length: '' @ Sprintf_d len @ '']''"

definition empty_placeholder :: "Source \<Rightarrow> string" where
  "empty_placeholder src = ''[Source content: '' @ Name src @ '', type: '' @ Type src @ '']''"

definition spec_body :: "int \<Rightarrow> Source \<Rightarrow> string" where
  "spec_body limit src =
     (if int (length (Content src)) > limit
        then take (nat limit) (Content src) @ truncation_marker (length (Content src))
      else if Content src \<noteq> '''' then Content src
      else empty_placeholder src)"

definition spec_section :: "int \<Rightarrow> nat \<Rightarrow> Source \<Rightarrow> string" where
  "spec_section limit i src =
     ''\<newline>## Source '' @ Sprintf_d (i + 1) @ '': '' @ Name src @ ''\<newline>''
       @ spec_body limit src @ ''\<newline>''"

text \<open>The number of characters of a text in UTF-8: every byte but the continuation
  bytes \<^verbatim>\<open>0x80\<close> to \<^verbatim>\<open>0xBF\<close> starts one.\<close>

definition utf8_continuation :: "char \<Rightarrow> bool" where
  "utf8_continuation c \<longleftrightarrow> 128 \<le> (of_char c :: nat) \<and> (of_char c :: nat) < 192"

definition character_count :: "string \<Rightarrow> nat" where
  "character_count s = length (filter (\<lambda>c. \<not> utf8_continuation c) s)"

section \<open>\<^verbatim>\<open>Agent.Chat\<close>\<close>

text \<open>
  A Go \<^verbatim>\<open>error\<close> is modelled by its message; \<^verbatim>\<open>fmt.Errorf("...: %w", err)\<close> puts
  its text in front of the message of the error it wraps.
\<close>

type_synonym error = string

text \<open>
  A retrieved document (\<^verbatim>\<open>schema.Document\<close>): its text and its metadata, a map from keys
  to values of any type. \<^verbatim>\<open>doc.Metadata["source"].(string)\<close> succeeds on a string only.
\<close>

datatype any = AString string | AInt int

record Document =
  PageContent :: string
  Metadata :: "string \<rightharpoonup> any"

datatype ChatMessage = ChatMessage (msg_Role: string) (msg_Content: string)

datatype SourceSummary =
  SourceSummary (summary_ID: string) (summary_Name: string) (summary_Type: string)

record ChatResponse =
  Message :: string
  Sources :: "SourceSummary list"
  SessionID :: string
  docs_retrieved :: nat

text \<open>The literals of the chat prompt, as UTF-8 bytes: the labels of the two roles, the
  heading of the context block, and the two prefixes of a retrieved document.\<close>

definition role_user :: string where
  "role_user = [CHR 0xE7, CHR 0x94, CHR 0xA8, CHR 0xE6, CHR 0x88, CHR 0xB7]"

definition role_assistant :: string where
  "role_assistant = [CHR 0xE5, CHR 0x8A, CHR 0xA9, CHR 0xE6, CHR 0x89, CHR 0x8B]"

definition context_heading :: string where
  "context_heading =
     [CHR 0xE6, CHR 0x9D, CHR 0xA5, CHR 0xE6, CHR 0xBA, CHR 0x90, CHR 0xE4, CHR 0xB8, CHR 0xAD,
      CHR 0xE7, CHR 0x9A, CHR 0x84, CHR 0xE7, CHR 0x9B, CHR 0xB8, CHR 0xE5, CHR 0x85, CHR 0xB3,
      CHR 0xE4, CHR 0xBF, CHR 0xA1, CHR 0xE6, CHR 0x81, CHR 0xAF, CHR 0xEF, CHR 0xBC, CHR 0x9A,
      CHR 0x0A, CHR 0x0A]"

definition source_word :: string where
  "source_word = [CHR 0xE6, CHR 0x9D, CHR 0xA5, CHR 0xE6, CHR 0xBA, CHR 0x90]"

text \<open>The loop over \<^verbatim>\<open>docs\<close> that fills \<^verbatim>\<open>contextBuilder\<close>.\<close>

fun context_loop :: "nat \<Rightarrow> Document list \<Rightarrow> string \<Rightarrow> string" where
  "context_loop i [] cb = cb"
| "context_loop i (doc # rest) cb =
     (let cb1 = cb @ ''['' @ source_word @ '' '' @ Sprintf_d (i + 1) @ ''] '' @ PageContent doc
                  @ ''\<newline>'';
          cb2 = (case Metadata doc ''source'' of
                   Some (AString source) \<Rightarrow> cb1 @ source_word @ '': '' @ source @ ''\<newline>\<newline>''
                 | _ \<Rightarrow> cb1)
      in context_loop (i + 1) rest cb2)"

definition contextBuilder :: "Document list \<Rightarrow> string" where
  "contextBuilder docs = (if length docs > 0 then context_loop 0 docs context_heading else '''')"

text \<open>The loop over \<^verbatim>\<open>history\<close> that fills \<^verbatim>\<open>historyBuilder\<close>; it breaks at index 10.\<close>

fun history_loop :: "nat \<Rightarrow> ChatMessage list \<Rightarrow> string \<Rightarrow> string" where
  "history_loop i [] hb = hb"
| "history_loop i (msg # rest) hb =
     (if i \<ge> 10 then hb
      else
        (let role = (if msg_Role msg = ''assistant'' then role_assistant else role_user)
         in history_loop (i + 1) rest (hb @ role @ '': '' @ msg_Content msg @ ''\<newline>'')))"

definition historyBuilder :: "ChatMessage list \<Rightarrow> string" where
  "historyBuilder history = history_loop 0 history ''''"

text \<open>The loop that collects \<^verbatim>\<open>sourceSummaries\<close>; \<^verbatim>\<open>sourceMap\<close> is a
  \<^verbatim>\<open>map[string]bool\<close>, which reads \<^verbatim>\<open>false\<close> at a key it does not hold.\<close>

fun summaries_loop ::
  "Document list \<Rightarrow> SourceSummary list \<Rightarrow> (string \<Rightarrow> bool) \<Rightarrow> SourceSummary list" where
  "summaries_loop [] sourceSummaries sourceMap = sourceSummaries"
| "summaries_loop (doc # rest) sourceSummaries sourceMap =
     (case Metadata doc ''source'' of
        Some (AString source) \<Rightarrow>
          (if \<not> sourceMap source
           then summaries_loop rest (sourceSummaries @ [SourceSummary source source ''file''])
                  (sourceMap (source := True))
           else summaries_loop rest sourceSummaries sourceMap)
      | _ \<Rightarrow> summaries_loop rest sourceSummaries sourceMap)"

definition sourceSummaries_of :: "Document list \<Rightarrow> SourceSummary list" where
  "sourceSummaries_of docs = summaries_loop docs [] (\<lambda>_. False)"

text \<open>
  \<^verbatim>\<open>Chat\<close> itself. Its collaborators are parameters: \<open>search\<close> is
  \<^verbatim>\<open>a.vectorStore.SimilaritySearch\<close> at the store's present state, called with the message
  and \<^verbatim>\<open>cfg.MaxSources\<close>; \<open>Format\<close> is the chat template's \<^verbatim>\<open>Format\<close>, given the
  values of \<^verbatim>\<open>history\<close>, \<^verbatim>\<open>context\<close> and \<^verbatim>\<open>question\<close>; \<open>generate\<close> is the
  provider's \<^verbatim>\<open>GenerateFromSinglePrompt\<close>.
\<close>

definition Chat ::
  "(string \<Rightarrow> int \<Rightarrow> error + Document list) \<Rightarrow> (string \<Rightarrow> string \<Rightarrow> string \<Rightarrow> error + string) \<Rightarrow>
   (string \<Rightarrow> error + string) \<Rightarrow> int \<Rightarrow> string \<Rightarrow> string \<Rightarrow> ChatMessage list \<Rightarrow>
   error + ChatResponse" where
  "Chat search Format generate MaxSources notebookID message history =
     (case search message MaxSources of
        Inl err \<Rightarrow> Inl (''failed to search documents: '' @ err)
      | Inr docs \<Rightarrow>
          (case Format (historyBuilder history) (contextBuilder docs) message of
             Inl err \<Rightarrow> Inl (''failed to format prompt: '' @ err)
           | Inr promptValue \<Rightarrow>
               (case generate promptValue of
                  Inl err \<Rightarrow> Inl (''failed to generate response: '' @ err)
                | Inr response \<Rightarrow>
                    Inr \<lparr>Message = response, Sources = sourceSummaries_of docs,
                         SessionID = notebookID, docs_retrieved = length docs\<rparr>)))"

subsection \<open>The history block, as the specification words it\<close>

definition history_line :: "ChatMessage \<Rightarrow> string" where
  "history_line msg =
     (if msg_Role msg = ''assistant'' then role_assistant else role_user)
       @ '': '' @ msg_Content msg @ ''\<newline>''"

definition last_turns :: "nat \<Rightarrow> 'a list \<Rightarrow> 'a list" where
  "last_turns n history = drop (length history - n) history"

definition first_turns :: "nat \<Rightarrow> 'a list \<Rightarrow> 'a list" where
  "first_turns n history = take n history"

section \<open>The vector store\<close>

text \<open>
  Modelled from the spec: the type \<^verbatim>\<open>VectorStore\<close> with its methods \<^verbatim>\<open>IngestText\<close> and
  \<^verbatim>\<open>SimilaritySearch\<close> is not among the files at hand; only their calls are
  (\<^verbatim>\<open>IngestText(ctx, notebookID, sourceName, content)\<close> in the server and
  \<^verbatim>\<open>SimilaritySearch(ctx, message, MaxSources)\<close> in \<^verbatim>\<open>Agent.Chat\<close>). The spec's index
  holds chunks tagged by notebook and source; ingestion splits the text and inserts one
  chunk per segment; a search returns at most \<open>k\<close> chunks in order of descending
  similarity. The chunker \<open>split\<close> and the similarity \<open>score\<close> are parameters. The search
  has the arguments of the call in \<^verbatim>\<open>Agent.Chat\<close>: the query and \<open>k\<close>, no notebook.
\<close>

record Chunk =
  chunk_notebookID :: string
  chunk_sourceName :: string
  chunk_text :: string
  chunk_index :: nat

definition IngestText ::
  "(string \<Rightarrow> string list) \<Rightarrow> Chunk list \<Rightarrow> string \<Rightarrow> string \<Rightarrow> string \<Rightarrow> Chunk list \<times> nat" where
  "IngestText split index nb name content =
     (let segments = split content
      in (index @ map (\<lambda>(i, seg). \<lparr>chunk_notebookID = nb, chunk_sourceName = name, chunk_text = seg,
                                     chunk_index = i\<rparr>)
                    (zip [0 ..< length segments] segments),
          length segments))"

definition chunk_document :: "Chunk \<Rightarrow> Document" where
  "chunk_document c =
     \<lparr>PageContent = chunk_text c,
      Metadata = [''source'' \<mapsto> AString (chunk_sourceName c),
                  ''notebook_id'' \<mapsto> AString (chunk_notebookID c)]\<rparr>"

definition SimilaritySearch ::
  "(string \<Rightarrow> string \<Rightarrow> int) \<Rightarrow> Chunk list \<Rightarrow> string \<Rightarrow> int \<Rightarrow> error + Document list" where
  "SimilaritySearch score index query k =
     Inr (map chunk_document
            (take (nat k) (sort_key (\<lambda>c. - score query (chunk_text c)) index)))"

text \<open>The notebook a retrieved document is tagged with.\<close>

definition document_notebook :: "Document \<Rightarrow> string option" where
  "document_notebook doc =
     (case Metadata doc ''notebook_id'' of Some (AString nb) \<Rightarrow> Some nb | _ \<Rightarrow> None)"

section \<open>\<^verbatim>\<open>Agent.callDeepInsight\<close>\<close>

text \<open>\<^verbatim>\<open>escapeShellArg\<close>: the argument in single quotes, each single quote of it replaced
  by \<^verbatim>\<open>'"'"'\<close>.\<close>

definition escapeShellArg :: "string \<Rightarrow> string" where
  "escapeShellArg arg =
     [CHR 0x27]
       @ concat (map (\<lambda>c. if c = CHR 0x27 then [CHR 0x27, CHR 0x22, CHR 0x27, CHR 0x22, CHR 0x27]
                            else [c]) arg)
       @ [CHR 0x27]"

text \<open>
  A command that \<^verbatim>\<open>execCommandContext\<close> runs: the program and its arguments. The
  parameter \<open>run\<close> stands for the operating system: it gives the combined output of a
  command and its error, if any. \<^verbatim>\<open>callDeepInsight\<close> returns its result together with
  the commands it has run, in order; \<open>now\<close> is \<^verbatim>\<open>time.Now().Unix()\<close>.
\<close>

type_synonym command = "string \<times> string list"

definition callDeepInsight ::
  "(command \<Rightarrow> string \<times> error option) \<Rightarrow> nat \<Rightarrow> string \<Rightarrow> (error + string) \<times> command list" where
  "callDeepInsight run now summary =
     (let tmpFile = ''./tmp/deepinsight_report_'' @ Sprintf_d now @ ''.md'';
          analyse = (''./DeepInsight'', [''-o'', tmpFile, escapeShellArg summary]);
          (output, err) = run analyse
      in case err of
           Some e \<Rightarrow>
             (Inl (''DeepInsight command failed: '' @ e @ '', output: '' @ output), [analyse])
         | None \<Rightarrow>
             (let read = (''/bin/cat'', [tmpFile]);
                  (reportContent, err) = run read
              in case err of
                   Some e \<Rightarrow> (Inl (''failed to read DeepInsight report: '' @ e), [analyse, read])
                 | None \<Rightarrow>
                     (Inr reportContent, [analyse, read, (''/bin/rm'', [''-f'', tmpFile])])))"

section \<open>Paths\<close>

text \<open>
  The functions of Go's \<^verbatim>\<open>strings\<close> and \<^verbatim>\<open>path/filepath\<close> (on Unix) that the
  providers and the server call on paths. \<^verbatim>\<open>filepath.Clean\<close> drops empty and \<^verbatim>\<open>.\<close>
  elements, lets \<^verbatim>\<open>..\<close> remove the element before it, keeps a leading \<^verbatim>\<open>..\<close> of a
  relative path, and gives \<^verbatim>\<open>.\<close> for an empty result.
\<close>

fun split_sep :: "char \<Rightarrow> string \<Rightarrow> string list" where
  "split_sep c [] = [[]]"
| "split_sep c (x # xs) =
     (if x = c then [] # split_sep c xs
      else (case split_sep c xs of y # ys \<Rightarrow> (x # y) # ys | [] \<Rightarrow> [[x]]))"

fun strings_Join :: "string list \<Rightarrow> string \<Rightarrow> string" where
  "strings_Join [] sep = ''''"
| "strings_Join [e] sep = e"
| "strings_Join (e # es) sep = e @ sep @ strings_Join es sep"

fun clean_loop :: "bool \<Rightarrow> string list \<Rightarrow> string list \<Rightarrow> string list" where
  "clean_loop rooted [] out = out"
| "clean_loop rooted (c # cs) out =
     (if c = '''' \<or> c = ''.'' then clean_loop rooted cs out
      else if c = ''..'' then
        (if out \<noteq> [] \<and> last out \<noteq> ''..'' then clean_loop rooted cs (butlast out)
         else if \<not> rooted then clean_loop rooted cs (out @ [''..''])
         else clean_loop rooted cs out)
      else clean_loop rooted cs (out @ [c]))"

definition filepath_Clean :: "string \<Rightarrow> string" where
  "filepath_Clean path =
     (if path = '''' then ''.''
      else
        (let rooted = (hd path = CHR ''/'');
             body = strings_Join (clean_loop rooted (split_sep (CHR ''/'') path) []) ''/''
         in if rooted then ''/'' @ body else if body = '''' then ''.'' else body))"

definition filepath_Join :: "string list \<Rightarrow> string" where
  "filepath_Join elem =
     (case dropWhile (\<lambda>e. e = '''') elem of
        [] \<Rightarrow> ''''
      | es \<Rightarrow> filepath_Clean (strings_Join es ''/''))"

definition filepath_Base :: "string \<Rightarrow> string" where
  "filepath_Base path =
     (if path = '''' then ''.''
      else
        (let stripped = rev (dropWhile (\<lambda>c. c = CHR ''/'') (rev path));
             element = rev (takeWhile (\<lambda>c. c \<noteq> CHR ''/'') (rev stripped))
         in if element = '''' then ''/'' else element))"

section \<open>The image providers\<close>

text \<open>
  What a provider does to the world is returned as a list of events, in order: the
  pauses of \<^verbatim>\<open>time.Sleep\<close> (in seconds), the calls of the GenAI SDK's
  \<^verbatim>\<open>GenerateContent\<close> (model, prompt and the timeout, in seconds, of the context the
  call runs under), and the calls of \<^verbatim>\<open>os.MkdirAll\<close> and \<^verbatim>\<open>os.WriteFile\<close>.
\<close>

datatype event =
  Sleep nat
| GenerateContent string string nat
| MkdirAll_call string
| WriteFile_call string string

text \<open>The operating system as a provider meets it: the clock
  (\<^verbatim>\<open>time.Now().UnixNano()\<close> at the moment the file is named) and the results of
  creating a directory and of writing a file.\<close>

record os_env =
  UnixNano :: nat
  MkdirAll :: "string \<Rightarrow> error option"
  WriteFile :: "string \<Rightarrow> string \<Rightarrow> error option"

subsection \<open>\<^verbatim>\<open>GeminiClient.GenerateImage\<close>\<close>

text \<open>
  A response of \<^verbatim>\<open>GenerateContent\<close> is its list of candidates; the content of a
  candidate may be \<^verbatim>\<open>nil\<close>, and so may the inline data of a part.
\<close>

datatype Part = Part (InlineData: "string option")

datatype Candidate = Candidate (candidate_Content: "Part list option")

text \<open>The loop over the parts: the data of the first part that has inline data.\<close>

fun first_InlineData :: "Part list \<Rightarrow> string" where
  "first_InlineData [] = ''''"
| "first_InlineData (part # rest) =
     (case InlineData part of Some d \<Rightarrow> d | None \<Rightarrow> first_InlineData rest)"

text \<open>
  The loop \<^verbatim>\<open>for attempt := 1; attempt <= 3; attempt++\<close>. \<open>respond n\<close> is what the
  \<open>n\<close>-th call of \<^verbatim>\<open>GenerateContent\<close> returns: an error or the candidates.
\<close>

function GenerateImage_attempts ::
  "(nat \<Rightarrow> error + Candidate list) \<Rightarrow> os_env \<Rightarrow> string \<Rightarrow> string \<Rightarrow> nat \<Rightarrow> error option \<Rightarrow>
   event list \<Rightarrow> (error + string) \<times> event list" where
  "GenerateImage_attempts respond os model prompt attempt lastErr trace =
     (if attempt \<le> 3 then
        (let trace = trace @ (if attempt > 1 then [Sleep 2] else [])
                       @ [GenerateContent model prompt 300]
         in case respond attempt of
              Inl err \<Rightarrow>
                GenerateImage_attempts respond os model prompt (attempt + 1) (Some err) trace
            | Inr [] \<Rightarrow>
                GenerateImage_attempts respond os model prompt (attempt + 1)
                  (Some ''no candidates generated'') trace
            | Inr (candidate # _) \<Rightarrow>
                (case candidate_Content candidate of
                   None \<Rightarrow>
                     GenerateImage_attempts respond os model prompt (attempt + 1)
                       (Some ''no candidates generated'') trace
                 | Some parts \<Rightarrow>
                     (let imageData = first_InlineData parts
                      in if length imageData = 0 then
                           GenerateImage_attempts respond os model prompt (attempt + 1)
                             (Some ''no image data in response'') trace
                         else
                           (let fileName = ''infograph_'' @ Sprintf_d (UnixNano os) @ ''.png'';
                                uploadDir = ''./data/uploads''
                            in case MkdirAll os uploadDir of
                                 Some e \<Rightarrow>
                                   (Inl (''failed to create upload directory: '' @ e),
                                    trace @ [MkdirAll_call uploadDir])
                               | None \<Rightarrow>
                                   (let filePath = filepath_Join [uploadDir, fileName]
                                    in case WriteFile os filePath imageData of
                                         Some e \<Rightarrow>
                                           (Inl (''failed to save image: '' @ e),
                                            trace @ [MkdirAll_call uploadDir,
                                                     WriteFile_call filePath imageData])
                                       | None \<Rightarrow>
                                           (Inr filePath,
                                            trace @ [MkdirAll_call uploadDir,
                                                     WriteFile_call filePath imageData]))))))
      else
        (Inl (''failed to generate image after 3 attempts: ''
               @ (case lastErr of Some e \<Rightarrow> e | None \<Rightarrow> ''%!w(<nil>)'')),
         trace))"
  by pat_completeness auto
termination
  by (relation "measure (\<lambda>(respond, os, model, prompt, attempt, lastErr, trace). 4 - attempt)") auto

declare GenerateImage_attempts.simps [simp del]

text \<open>\<open>NewClient\<close> is the result of \<^verbatim>\<open>genai.NewClient\<close>: its error, if any.\<close>

definition Gemini_GenerateImage ::
  "error option \<Rightarrow> (nat \<Rightarrow> error + Candidate list) \<Rightarrow> os_env \<Rightarrow> string \<Rightarrow> string \<Rightarrow> string \<Rightarrow>
   (error + string) \<times> event list" where
  "Gemini_GenerateImage NewClient respond os googleAPIKey model prompt =
     (if googleAPIKey = '''' then (Inl ''google_api_key is not set'', [])
      else
        (case NewClient of
           Some err \<Rightarrow> (Inl (''failed to create genai client: '' @ err), [])
         | None \<Rightarrow> GenerateImage_attempts respond os model prompt 1 None []))"

subsection \<open>The two HTTP providers\<close>

text \<open>
  A request as the clients build it, and the network as they meet it: \<open>NewRequest\<close> is
  the error of \<^verbatim>\<open>http.NewRequestWithContext\<close> for a method and a URL, \<open>Do\<close> the result
  of sending a request. The body of a response is what reading it gives, an error or
  its bytes. The body of a request is kept as the value that \<^verbatim>\<open>json.Marshal\<close> encodes;
  on maps of strings \<^verbatim>\<open>json.Marshal\<close> has no error.
\<close>

datatype json = JString string | JObject "(string \<times> json) list"

record http_request =
  req_method :: string
  req_url :: string
  req_headers :: "(string \<times> string) list"
  req_body :: "json option"

record http_response =
  StatusCode :: nat
  Body :: "error + string"

record http_env =
  NewRequest :: "string \<Rightarrow> string \<Rightarrow> error option"
  Do :: "http_request \<Rightarrow> error + http_response"

text \<open>The fields of the decoded answer that the clients read: the URLs of the images,
  and the error code and message. \<open>Decode\<close>, a parameter, is the JSON decoder.\<close>

record image_result =
  result_URLs :: "string list"
  result_Code :: string
  result_Message :: string

text \<open>\<^verbatim>\<open>GLMImageClient.generateToken\<close>: the key must be \<^verbatim>\<open>id.secret\<close>; \<open>SignedString\<close>
  signs the claims made of the id and the time with the secret.\<close>

definition generateToken ::
  "(string \<Rightarrow> string \<Rightarrow> error + string) \<Rightarrow> string \<Rightarrow> error + string" where
  "generateToken SignedString apiKey =
     (case split_sep (CHR ''.'') apiKey of
        [apiID, apiSecret] \<Rightarrow>
          (case SignedString apiID apiSecret of
             Inl err \<Rightarrow> Inl (''failed to sign token: '' @ err)
           | Inr tokenString \<Rightarrow> Inr tokenString)
      | _ \<Rightarrow> Inl ''invalid API key format, expected id.secret'')"

text \<open>The tail that both HTTP clients share word for word: download the image from its
  URL, then save it in the directory of the user, or in the shared directory when
  \<^verbatim>\<open>userID\<close> is empty.\<close>

definition download_and_save ::
  "http_env \<Rightarrow> os_env \<Rightarrow> string \<Rightarrow> string \<Rightarrow> (error + string) \<times> event list" where
  "download_and_save net os imageURL userID =
     (case NewRequest net ''GET'' imageURL of
        Some err \<Rightarrow> (Inl (''failed to create download request: '' @ err), [])
      | None \<Rightarrow>
          (case Do net \<lparr>req_method = ''GET'', req_url = imageURL, req_headers = [],
                         req_body = None\<rparr> of
             Inl err \<Rightarrow> (Inl (''failed to download image: '' @ err), [])
           | Inr downloadResp \<Rightarrow>
               (case Body downloadResp of
                  Inl err \<Rightarrow> (Inl (''failed to read image data: '' @ err), [])
                | Inr imageData \<Rightarrow>
                    (if StatusCode downloadResp \<noteq> 200 then
                       (Inl (''failed to download image, status: ''
                              @ Sprintf_d (StatusCode downloadResp)), [])
                     else
                       (let fileName = ''infograph_'' @ Sprintf_d (UnixNano os) @ ''.png'';
                            uploadDir = (if userID \<noteq> '''' then filepath_Join [''./data/uploads'', userID]
                                         else ''./data/uploads'')
                        in case MkdirAll os uploadDir of
                             Some e \<Rightarrow>
                               (Inl (''failed to create upload directory: '' @ e),
                                [MkdirAll_call uploadDir])
                           | None \<Rightarrow>
                               (let filePath = filepath_Join [uploadDir, fileName]
                                in case WriteFile os filePath imageData of
                                     Some e \<Rightarrow>
                                       (Inl (''failed to save image: '' @ e),
                                        [MkdirAll_call uploadDir,
                                         WriteFile_call filePath imageData])
                                   | None \<Rightarrow>
                                       (Inr filePath,
                                        [MkdirAll_call uploadDir,
                                         WriteFile_call filePath imageData])))))))"

text \<open>\<^verbatim>\<open>GLMImageClient.GenerateImage\<close>.\<close>

definition GLM_GenerateImage ::
  "(string \<Rightarrow> string \<Rightarrow> error + string) \<Rightarrow> (string \<Rightarrow> error + image_result) \<Rightarrow> http_env \<Rightarrow> os_env \<Rightarrow>
   string \<Rightarrow> string \<Rightarrow> string \<Rightarrow> string \<Rightarrow> (error + string) \<times> event list" where
  "GLM_GenerateImage SignedString Decode net os apiKey model prompt userID =
     (if apiKey = '''' then (Inl ''glm_api_key is not set'', [])
      else
        (case generateToken SignedString apiKey of
           Inl err \<Rightarrow> (Inl (''failed to generate token: '' @ err), [])
         | Inr token \<Rightarrow>
             (let baseURL = ''https://open.bigmodel.cn/api/paas/v4/images/generations'';
                  requestBody = JObject [(''model'', JString model), (''prompt'', JString prompt),
                                         (''size'', JString ''1280x1280'')]
              in case NewRequest net ''POST'' baseURL of
                   Some err \<Rightarrow> (Inl (''failed to create request: '' @ err), [])
                 | None \<Rightarrow>
                     (case Do net \<lparr>req_method = ''POST'', req_url = baseURL,
                                    req_headers = [(''Content-Type'', ''application/json''),
                                                   (''Authorization'', ''Bearer '' @ token)],
                                    req_body = Some requestBody\<rparr> of
                        Inl err \<Rightarrow> (Inl (''failed to send request: '' @ err), [])
                      | Inr resp \<Rightarrow>
                          (case (case Body resp of Inl err \<Rightarrow> Inl err | Inr bytes \<Rightarrow> Decode bytes) of
                             Inl err \<Rightarrow> (Inl (''failed to decode response: '' @ err), [])
                           | Inr result \<Rightarrow>
                               (if result_Code result \<noteq> '''' then
                                  (Inl (''GLM API error ('' @ result_Code result @ ''): ''
                                         @ result_Message result), [])
                                else
                                  (case result_URLs result of
                                     [] \<Rightarrow> (Inl ''no image URL in response'', [])
                                   | imageURL # _ \<Rightarrow>
                                       (if imageURL = '''' then (Inl ''no image URL in response'', [])
                                        else download_and_save net os imageURL userID))))))))"

text \<open>\<^verbatim>\<open>ZImageClient.GenerateImage\<close>.\<close>

definition ZImage_GenerateImage ::
  "(string \<Rightarrow> error + image_result) \<Rightarrow> http_env \<Rightarrow> os_env \<Rightarrow>
   string \<Rightarrow> string \<Rightarrow> string \<Rightarrow> string \<Rightarrow> (error + string) \<times> event list" where
  "ZImage_GenerateImage Decode net os apiKey model prompt userID =
     (if apiKey = '''' then (Inl ''zimage_api_key is not set'', [])
      else
        (let baseURL = ''https://dashscope.aliyuncs.com/api/v1/services/aigc/image-generation/generation'';
             requestBody = JObject [(''model'', JString model),
                                    (''input'', JObject [(''prompt'', JString prompt)]),
                                    (''parameters'', JObject [(''size'', JString ''1280*1280'')])]
         in case NewRequest net ''POST'' baseURL of
              Some err \<Rightarrow> (Inl (''failed to create request: '' @ err), [])
            | None \<Rightarrow>
                (case Do net \<lparr>req_method = ''POST'', req_url = baseURL,
                               req_headers = [(''Content-Type'', ''application/json''),
                                              (''Authorization'', ''Bearer '' @ apiKey)],
                               req_body = Some requestBody\<rparr> of
                   Inl err \<Rightarrow> (Inl (''failed to send request: '' @ err), [])
                 | Inr resp \<Rightarrow>
                     (case (case Body resp of Inl err \<Rightarrow> Inl err | Inr bytes \<Rightarrow> Decode bytes) of
                        Inl err \<Rightarrow> (Inl (''failed to decode response: '' @ err), [])
                      | Inr result \<Rightarrow>
                          (if result_Code result \<noteq> '''' \<and> result_Code result \<noteq> ''200'' then
                             (Inl (''Z-Image API error ('' @ result_Code result @ ''): ''
                                    @ result_Message result), [])
                           else
                             (case result_URLs result of
                                [] \<Rightarrow> (Inl ''no image URL in response'', [])
                              | imageURL # _ \<Rightarrow>
                                  (if imageURL = '''' then (Inl ''no image URL in response'', [])
                                   else download_and_save net os imageURL userID)))))))"

subsection \<open>The retry policy, as the specification words it\<close>

text \<open>
  The reason one attempt has to be retried: a transport failure (the error of the call),
  an empty candidate list or a candidate without content, or a response whose first
  inline data is missing or empty. \<open>None\<close>: the attempt has brought an image payload.
\<close>

definition attempt_payload :: "error + Candidate list \<Rightarrow> string" where
  "attempt_payload response =
     (case response of
        Inl err \<Rightarrow> ''''
      | Inr [] \<Rightarrow> ''''
      | Inr (candidate # _) \<Rightarrow>
          (case candidate_Content candidate of None \<Rightarrow> '''' | Some parts \<Rightarrow> first_InlineData parts))"

definition attempt_error :: "error + Candidate list \<Rightarrow> error option" where
  "attempt_error response =
     (case response of
        Inl err \<Rightarrow> Some err
      | Inr [] \<Rightarrow> Some ''no candidates generated''
      | Inr (candidate # _) \<Rightarrow>
          (case candidate_Content candidate of
             None \<Rightarrow> Some ''no candidates generated''
           | Some parts \<Rightarrow>
               (if first_InlineData parts = '''' then Some ''no image data in response''
                else None)))"

text \<open>The events of \<open>n\<close> attempts in a row: each attempt is one call under a timeout of
  300 seconds, and each attempt but the first comes after a pause of 2 seconds.\<close>

fun attempt_events :: "string \<Rightarrow> string \<Rightarrow> nat \<Rightarrow> event list" where
  "attempt_events model prompt 0 = []"
| "attempt_events model prompt (Suc n) =
     attempt_events model prompt n
       @ (if n > 0 then [Sleep 2] else []) @ [GenerateContent model prompt 300]"

definition is_attempt :: "event \<Rightarrow> bool" where
  "is_attempt e = (case e of GenerateContent _ _ _ \<Rightarrow> True | _ \<Rightarrow> False)"

definition is_attempt_event :: "event \<Rightarrow> bool" where
  "is_attempt_event e = (case e of GenerateContent _ _ _ \<Rightarrow> True | Sleep _ \<Rightarrow> True | _ \<Rightarrow> False)"

text \<open>The file name and the path of an image saved in the shared uploads directory.\<close>

definition infograph_name :: "os_env \<Rightarrow> string" where
  "infograph_name os = ''infograph_'' @ Sprintf_d (UnixNano os) @ ''.png''"

definition shared_path :: "os_env \<Rightarrow> string" where
  "shared_path os = filepath_Join [''./data/uploads'', infograph_name os]"

text \<open>What the loop does once an attempt has brought the payload \<open>imageData\<close>: it
  saves the image in the shared directory and returns, with no further attempt.\<close>

definition save_shared :: "os_env \<Rightarrow> string \<Rightarrow> event list \<Rightarrow> (error + string) \<times> event list" where
  "save_shared os imageData trace =
     (case MkdirAll os ''./data/uploads'' of
        Some e \<Rightarrow> (Inl (''failed to create upload directory: '' @ e),
                   trace @ [MkdirAll_call ''./data/uploads''])
      | None \<Rightarrow>
          (case WriteFile os (shared_path os) imageData of
             Some e \<Rightarrow> (Inl (''failed to save image: '' @ e),
                        trace @ [MkdirAll_call ''./data/uploads'',
                                 WriteFile_call (shared_path os) imageData])
           | None \<Rightarrow> (Inr (shared_path os),
                      trace @ [MkdirAll_call ''./data/uploads'',
                               WriteFile_call (shared_path os) imageData])))"

text \<open>Attempt \<open>n\<close> is the first that brings a payload.\<close>

definition succeeds_at :: "(nat \<Rightarrow> error + Candidate list) \<Rightarrow> nat \<Rightarrow> bool" where
  "succeeds_at respond n \<longleftrightarrow>
     (\<forall>i\<in>{1 ..< n}. attempt_error (respond i) \<noteq> None) \<and> attempt_error (respond n) = None"

subsection \<open>The place of a saved image, as the specification words it\<close>

text \<open>
  The directory of a request: the directory of the user under the uploads directory
  when a user identity is given, the shared uploads directory when none is. A plain
  name is one path element: not empty, without a slash, neither \<^verbatim>\<open>.\<close> nor \<^verbatim>\<open>..\<close>.
\<close>

definition upload_dir :: "string \<Rightarrow> string" where
  "upload_dir userID =
     (if userID \<noteq> '''' then filepath_Join [''./data/uploads'', userID] else ''./data/uploads'')"

definition plain_name :: "string \<Rightarrow> bool" where
  "plain_name u \<longleftrightarrow> u \<noteq> '''' \<and> CHR ''/'' \<notin> set u \<and> u \<noteq> ''.'' \<and> u \<noteq> ''..''"

section \<open>\<^verbatim>\<open>Agent.ParsePPTSlides\<close>\<close>

text \<open>
  The functions of Go's \<^verbatim>\<open>strings\<close> that the parser calls. \<^verbatim>\<open>strings.Index\<close> gives
  the index of the first occurrence, \<open>None\<close> standing for its \<^verbatim>\<open>-1\<close>.
  \<^verbatim>\<open>strings.Split\<close> is called with a separator that is not empty, and is modelled for
  such separators. A slice \<^verbatim>\<open>s[lo:hi]\<close> panics unless \<^verbatim>\<open>lo <= hi <= len(s)\<close>; \<open>None\<close> is
  the panic.
\<close>

fun strings_Index :: "string \<Rightarrow> string \<Rightarrow> nat option" where
  "strings_Index [] substr = (if substr = [] then Some 0 else None)"
| "strings_Index (c # cs) substr =
     (if take (length substr) (c # cs) = substr then Some 0
      else map_option Suc (strings_Index cs substr))"

definition strings_Contains :: "string \<Rightarrow> string \<Rightarrow> bool" where
  "strings_Contains s substr \<longleftrightarrow> strings_Index s substr \<noteq> None"

function strings_Split :: "string \<Rightarrow> string \<Rightarrow> string list" where
  "strings_Split s sep =
     (case (if sep = [] then None else strings_Index s sep) of
        None \<Rightarrow> [s]
      | Some i \<Rightarrow> take i s # strings_Split (drop (i + length sep) s) sep)"
  by pat_completeness auto
termination
proof (relation "measure (\<lambda>(s, sep). length s)")
  show "wf (measure (\<lambda>(s, sep). length s))" by simp
next
  fix s sep :: string and i
  assume found: "(if sep = [] then None else strings_Index s sep) = Some i"
  then have sep: "sep \<noteq> []" by (auto split: if_splits)
  have bound: "strings_Index t sep = Some j \<Longrightarrow> j + length sep \<le> length t" for t j
  proof (induction t arbitrary: j)
    case Nil
    then show ?case by (simp split: if_splits)
  next
    case (Cons c cs)
    show ?case
    proof (cases "take (length sep) (c # cs) = sep")
      case True
      then have "length (take (length sep) (c # cs)) = length sep"
        by (simp only:)
      then have "length sep \<le> length (c # cs)"
        by (simp only: length_take)
      with True Cons.prems show ?thesis by simp
    next
      case False
      with Cons.prems obtain k where "strings_Index cs sep = Some k" and "j = Suc k"
        by auto
      with Cons.IH show ?thesis by simp
    qed
  qed
  from found sep have "strings_Index s sep = Some i" by simp
  from bound [OF this] sep have "length (drop (i + length sep) s) < length s"
    by (cases sep) auto
  then show "((drop (i + length sep) s, sep), (s, sep)) \<in> measure (\<lambda>(s, sep). length s)"
    by simp
qed

declare strings_Split.simps [simp del]

definition go_slice :: "string \<Rightarrow> nat \<Rightarrow> nat \<Rightarrow> string option" where
  "go_slice s lo hi = (if lo \<le> hi \<and> hi \<le> length s then Some (take (hi - lo) (drop lo s)) else None)"

datatype Slide = Slide (slide_Style: string) (slide_Content: string)

text \<open>The markers of the parser, as UTF-8 bytes: the two section markers outside ASCII
  that validate a slide, and the marker of a narrative goal in the first language.\<close>

definition marker_narrative_goal :: string where
  "marker_narrative_goal =
     [CHR 0xE5, CHR 0x8F, CHR 0x99, CHR 0xE4, CHR 0xBA, CHR 0x8B, CHR 0xE7, CHR 0x9B, CHR 0xAE,
      CHR 0xE6, CHR 0xA0, CHR 0x87]"

definition marker_key_content :: string where
  "marker_key_content =
     [CHR 0xE5, CHR 0x85, CHR 0xB3, CHR 0xE9, CHR 0x94, CHR 0xAE, CHR 0xE5, CHR 0x86, CHR 0x85,
      CHR 0xE5, CHR 0xAE, CHR 0xB9]"

definition split_marker_first :: string where
  "split_marker_first = ''// '' @ marker_narrative_goal"

definition split_marker_second :: string where
  "split_marker_second = ''// NARRATIVE GOAL''"

text \<open>
  The loop over the heading matches. \<open>indices\<close> is what
  \<^verbatim>\<open>re.FindAllStringIndex(content, -1)\<close> returns, the start and the end of every match of
  the heading pattern; \<open>ToLower\<close> is \<^verbatim>\<open>strings.ToLower\<close>. Both come from Go's library
  and are parameters. The head of the list is match \<open>i\<close>, the one after it match \<open>i+1\<close>.
\<close>

fun heading_loop ::
  "(string \<Rightarrow> string) \<Rightarrow> string \<Rightarrow> string \<Rightarrow> (nat \<times> nat) list \<Rightarrow> Slide list \<Rightarrow> Slide list option" where
  "heading_loop ToLower content style [] slides = Some slides"
| "heading_loop ToLower content style ((start, _) # rest) slides =
     (let end = (case rest of [] \<Rightarrow> length content | (next, _) # _ \<Rightarrow> next)
      in case go_slice content start end of
           None \<Rightarrow> None
         | Some slideContent \<Rightarrow>
             (let lower = ToLower slideContent
              in if strings_Contains lower marker_narrative_goal
                    \<or> strings_Contains lower ''narrative goal''
                    \<or> strings_Contains lower marker_key_content
                 then heading_loop ToLower content style rest (slides @ [Slide style slideContent])
                 else heading_loop ToLower content style rest slides))"

text \<open>Step 1, the style between \<^verbatim>\<open><STYLE_INSTRUCTIONS>\<close> and its closing tag.\<close>

definition extract_style :: "string \<Rightarrow> string option" where
  "extract_style content =
     (case (strings_Index content ''<STYLE_INSTRUCTIONS>'',
            strings_Index content ''</STYLE_INSTRUCTIONS>'') of
        (Some styleStart, Some styleEnd) \<Rightarrow>
          (if styleEnd > styleStart then go_slice content (styleStart + 20) styleEnd else Some '''')
      | _ \<Rightarrow> Some '''')"

text \<open>Step 3, the split at the marker of a narrative goal: every part after the first
  becomes a slide, the marker put back in front.\<close>

definition marker_slides :: "string \<Rightarrow> string \<Rightarrow> Slide list" where
  "marker_slides style content =
     (let marker = (if \<not> strings_Contains content split_marker_first then split_marker_second
                    else split_marker_first)
      in if strings_Contains content marker
         then map (\<lambda>part. Slide style (marker @ part)) (tl (strings_Split content marker))
         else [])"

definition ParsePPTSlides ::
  "(string \<Rightarrow> string) \<Rightarrow> (nat \<times> nat) list \<Rightarrow> string \<Rightarrow> Slide list option" where
  "ParsePPTSlides ToLower indices content =
     (case extract_style content of
        None \<Rightarrow> None
      | Some style \<Rightarrow>
          (case heading_loop ToLower content style indices [] of
             None \<Rightarrow> None
           | Some slides \<Rightarrow>
               (let slides = (if length slides = 0 then marker_slides style content else slides);
                    slides = (if length slides = 0 then [Slide style content] else slides)
                in Some slides)))"

text \<open>What Go's \<^verbatim>\<open>regexp\<close> promises of the matches it returns: they lie in the text,
  one after the other.\<close>

fun matches_in_order :: "nat \<Rightarrow> nat \<Rightarrow> (nat \<times> nat) list \<Rightarrow> bool" where
  "matches_in_order from len [] \<longleftrightarrow> True"
| "matches_in_order from len ((start, end) # rest) \<longleftrightarrow>
     from \<le> start \<and> start \<le> end \<and> end \<le> len \<and> matches_in_order end len rest"

section \<open>The server\<close>

subsection \<open>\<^verbatim>\<open>Server.loadNotebookVectorIndex\<close>\<close>

text \<open>
  The server's state as the loader touches it: the map \<^verbatim>\<open>loadedNotebooks\<close> (a
  \<^verbatim>\<open>map[string]bool\<close>, \<^verbatim>\<open>false\<close> at a key it does not hold), the vector store, and, to
  tell what the loader has done, the calls it has made to the store and to the vector
  store, in order. The loader holds \<^verbatim>\<open>vectorMutex\<close> from its first line to its return,
  so invocations, concurrent or not, run one after the other: each is one step on the
  state.
\<close>

datatype store_call =
  ListSources_call string
| IngestText_call string string string

record 'v server_state =
  loadedNotebooks :: "string \<Rightarrow> bool"
  vectorStore :: 'v
  store_calls :: "store_call list"

text \<open>
  The loop over the sources. \<open>ingest\<close> is \<^verbatim>\<open>s.vectorStore.IngestText\<close>: from the vector
  store, the notebook, the name and the content of a source it gives the chunk count or
  an error, and the vector store after the call. The loop logs an error and goes on.
\<close>

fun load_sources ::
  "('v \<Rightarrow> string \<Rightarrow> string \<Rightarrow> string \<Rightarrow> (error + nat) \<times> 'v) \<Rightarrow> string \<Rightarrow> Source list \<Rightarrow>
   'v \<times> store_call list \<Rightarrow> 'v \<times> store_call list" where
  "load_sources ingest nb [] (v, calls) = (v, calls)"
| "load_sources ingest nb (src # rest) (v, calls) =
     (if Content src \<noteq> '''' then
        (case ingest v nb (Name src) (Content src) of
           (result, v') \<Rightarrow>
             load_sources ingest nb rest
               (v', calls @ [IngestText_call nb (Name src) (Content src)]))
      else load_sources ingest nb rest (v, calls))"

text \<open>\<open>list\<close> is \<^verbatim>\<open>s.store.Store.ListSources\<close>. The result is the error returned,
  if any, and the state after the invocation.\<close>

definition loadNotebookVectorIndex ::
  "(string \<Rightarrow> error + Source list) \<Rightarrow> ('v \<Rightarrow> string \<Rightarrow> string \<Rightarrow> string \<Rightarrow> (error + nat) \<times> 'v) \<Rightarrow>
   'v server_state \<Rightarrow> string \<Rightarrow> error option \<times> 'v server_state" where
  "loadNotebookVectorIndex list ingest s nb =
     (if loadedNotebooks s nb then (None, s)
      else
        (case list nb of
           Inl err \<Rightarrow>
             (Some (''failed to list sources: '' @ err),
              s\<lparr>store_calls := store_calls s @ [ListSources_call nb]\<rparr>)
         | Inr sources \<Rightarrow>
             (case load_sources ingest nb sources
                     (vectorStore s, store_calls s @ [ListSources_call nb]) of
                (v, calls) \<Rightarrow>
                  (None, s\<lparr>loadedNotebooks := (loadedNotebooks s) (nb := True),
                            vectorStore := v, store_calls := calls\<rparr>))))"

text \<open>\<open>n\<close> invocations of the loader for one notebook, one after the other.\<close>

fun load_repeatedly ::
  "(string \<Rightarrow> error + Source list) \<Rightarrow> ('v \<Rightarrow> string \<Rightarrow> string \<Rightarrow> string \<Rightarrow> (error + nat) \<times> 'v) \<Rightarrow>
   string \<Rightarrow> nat \<Rightarrow> 'v server_state \<Rightarrow> 'v server_state" where
  "load_repeatedly list ingest nb 0 s = s"
| "load_repeatedly list ingest nb (Suc n) s =
     load_repeatedly list ingest nb n (snd (loadNotebookVectorIndex list ingest s nb))"

subsection \<open>\<^verbatim>\<open>Server.handleTransform\<close>\<close>

text \<open>The request, the note that is saved, and the values that the handler stores in
  the note's metadata (a \<^verbatim>\<open>map[string]interface{}\<close>): strings and the list of slide
  URLs. The fields that the store sets when it creates the note are not modelled.\<close>

record TransformationRequest =
  req_Type :: string
  req_Length :: string
  req_Format :: string
  req_Prompt :: string
  req_SourceIDs :: "string list"

datatype meta_value = MString string | MStrings "string list"

record Note =
  note_NotebookID :: string
  note_Title :: string
  note_Content :: string
  note_Type :: string
  note_SourceIDs :: "string list"
  note_Metadata :: "string \<rightharpoonup> meta_value"

text \<open>The literals of the handler outside ASCII, as UTF-8 bytes: the titles of
  \<^verbatim>\<open>getTitleForType\<close>, the note on the language appended to every image prompt, the
  message stored when a deck has too many slides, and the message of a conflict.\<close>

definition titles :: "(string \<times> string) list" where
  "titles =
    [(''summary'',
       [CHR 0xE6, CHR 0x91, CHR 0x98, CHR 0xE8, CHR 0xA6, CHR 0x81]),
     (''faq'',
       [CHR 0xE5, CHR 0xB8, CHR 0xB8, CHR 0xE8, CHR 0xA7, CHR 0x81, CHR 0xE9, CHR 0x97,
        CHR 0xAE, CHR 0xE9, CHR 0xA2, CHR 0x98, CHR 0xE8, CHR 0xA7, CHR 0xA3, CHR 0xE7,
        CHR 0xAD, CHR 0x94]),
     (''study_guide'',
       [CHR 0xE5, CHR 0xAD, CHR 0xA6, CHR 0xE4, CHR 0xB9, CHR 0xA0, CHR 0xE6, CHR 0x8C,
        CHR 0x87, CHR 0xE5, CHR 0x8D, CHR 0x97]),
     (''outline'',
       [CHR 0xE5, CHR 0xA4, CHR 0xA7, CHR 0xE7, CHR 0xBA, CHR 0xB2]),
     (''podcast'',
       [CHR 0xE6, CHR 0x92, CHR 0xAD, CHR 0xE5, CHR 0xAE, CHR 0xA2, CHR 0xE8, CHR 0x84,
        CHR 0x9A, CHR 0xE6, CHR 0x9C, CHR 0xAC]),
     (''timeline'',
       [CHR 0xE6, CHR 0x97, CHR 0xB6, CHR 0xE9, CHR 0x97, CHR 0xB4, CHR 0xE7, CHR 0xBA,
        CHR 0xBF]),
     (''glossary'',
       [CHR 0xE6, CHR 0x9C, CHR 0xAF, CHR 0xE8, CHR 0xAF, CHR 0xAD, CHR 0xE8, CHR 0xA1,
        CHR 0xA8]),
     (''quiz'',
       [CHR 0xE6, CHR 0xB5, CHR 0x8B, CHR 0xE9, CHR 0xAA, CHR 0x8C]),
     (''infograph'',
       [CHR 0xE4, CHR 0xBF, CHR 0xA1, CHR 0xE6, CHR 0x81, CHR 0xAF, CHR 0xE5, CHR 0x9B,
        CHR 0xBE]),
     (''ppt'',
       [CHR 0xE5, CHR 0xB9, CHR 0xBB, CHR 0xE7, CHR 0x81, CHR 0xAF, CHR 0xE7, CHR 0x89,
        CHR 0x87]),
     (''mindmap'',
       [CHR 0xE6, CHR 0x80, CHR 0x9D, CHR 0xE7, CHR 0xBB, CHR 0xB4, CHR 0xE5, CHR 0xAF,
        CHR 0xBC, CHR 0xE5, CHR 0x9B, CHR 0xBE]),
     (''insight'',
       [CHR 0xE6, CHR 0xB4, CHR 0x9E, CHR 0xE5, CHR 0xAF, CHR 0x9F, CHR 0xE6, CHR 0x8A,
        CHR 0xA5, CHR 0xE5, CHR 0x91, CHR 0x8A]),
     (''data_table'',
       [CHR 0xE6, CHR 0x95, CHR 0xB0, CHR 0xE6, CHR 0x8D, CHR 0xAE, CHR 0xE8, CHR 0xA1,
        CHR 0xA8, CHR 0xE6, CHR 0xA0, CHR 0xBC]),
     (''data_chart'',
       [CHR 0xE6, CHR 0x95, CHR 0xB0, CHR 0xE6, CHR 0x8D, CHR 0xAE, CHR 0xE5, CHR 0x9B,
        CHR 0xBE, CHR 0xE8, CHR 0xA1, CHR 0xA8])]"

definition default_title :: string where
  "default_title = [CHR 0xE7, CHR 0xAC, CHR 0x94, CHR 0xE8, CHR 0xAE, CHR 0xB0]"

definition language_note :: string where
  "language_note =
     ''**'' @ [CHR 0xE6, CHR 0xB3, CHR 0xA8, CHR 0xE6, CHR 0x84, CHR 0x8F, CHR 0xEF, CHR 0xBC,
        CHR 0x9A, CHR 0xE6, CHR 0x97, CHR 0xA0, CHR 0xE8, CHR 0xAE, CHR 0xBA, CHR 0xE6,
        CHR 0x9D, CHR 0xA5, CHR 0xE6, CHR 0xBA, CHR 0x90, CHR 0xE6, CHR 0x98, CHR 0xAF,
        CHR 0xE4, CHR 0xBB, CHR 0x80, CHR 0xE4, CHR 0xB9, CHR 0x88, CHR 0xE8, CHR 0xAF,
        CHR 0xAD, CHR 0xE8, CHR 0xA8, CHR 0x80, CHR 0xEF, CHR 0xBC, CHR 0x8C, CHR 0xE8,
        CHR 0xAF, CHR 0xB7, CHR 0xE5, CHR 0x8A, CHR 0xA1, CHR 0xE5, CHR 0xBF, CHR 0x85,
        CHR 0xE4, CHR 0xBD, CHR 0xBF, CHR 0xE7, CHR 0x94, CHR 0xA8, CHR 0xE4, CHR 0xB8,
        CHR 0xAD, CHR 0xE6, CHR 0x96, CHR 0x87] @ ''**''"

definition over_limit_message :: string where
  "over_limit_message =
     ''PPT'' @ [CHR 0xE9, CHR 0xA1, CHR 0xB5, CHR 0xE6, CHR 0x95, CHR 0xB0, CHR 0xE8, CHR 0xB6,
        CHR 0x85, CHR 0xE8, CHR 0xBF, CHR 0x87]
       @ ''20'' @ [CHR 0xE9, CHR 0xA1, CHR 0xB5, CHR 0xE4, CHR 0xB8, CHR 0x8A, CHR 0xE9, CHR 0x99,
        CHR 0x90, CHR 0xEF, CHR 0xBC, CHR 0x8C, CHR 0xE5, CHR 0xB7, CHR 0xB2, CHR 0xE5,
        CHR 0x81, CHR 0x9C, CHR 0xE6, CHR 0xAD, CHR 0xA2, CHR 0xE7, CHR 0x94, CHR 0x9F,
        CHR 0xE6, CHR 0x88, CHR 0x90, CHR 0xE5, CHR 0x9B, CHR 0xBE, CHR 0xE7, CHR 0x89,
        CHR 0x87]"

definition conflict_message :: string where
  "conflict_message =
     [CHR 0xE8, CHR 0xAF, CHR 0xA5, CHR 0xE7, CHR 0xAC, CHR 0x94, CHR 0xE8, CHR 0xAE,
      CHR 0xB0, CHR 0xE6, CHR 0x9C, CHR 0xAC, CHR 0xE5, CHR 0xB7, CHR 0xB2, CHR 0xE5,
      CHR 0xAD, CHR 0x98, CHR 0xE5, CHR 0x9C, CHR 0xA8, CHR 0xE7, CHR 0x9B, CHR 0xB8,
      CHR 0xE5, CHR 0x90, CHR 0x8C, CHR 0xE7, CHR 0xB1, CHR 0xBB, CHR 0xE5, CHR 0x9E,
      CHR 0x8B, CHR 0xE7, CHR 0x9A, CHR 0x84, CHR 0xE7, CHR 0xAC, CHR 0x94, CHR 0xE8,
      CHR 0xAE, CHR 0xB0, CHR 0xEF, CHR 0xBC, CHR 0x8C, CHR 0xE4, CHR 0xB8, CHR 0x8D,
      CHR 0xE5, CHR 0x85, CHR 0x81, CHR 0xE8, CHR 0xAE, CHR 0xB8, CHR 0xE5, CHR 0x88,
      CHR 0x9B, CHR 0xE5, CHR 0xBB, CHR 0xBA, CHR 0xE9, CHR 0x87, CHR 0x8D, CHR 0xE5,
      CHR 0xA4, CHR 0x8D, CHR 0xE7, CHR 0xB1, CHR 0xBB, CHR 0xE5, CHR 0x9E, CHR 0x8B]"

definition getTitleForType :: "string \<Rightarrow> string" where
  "getTitleForType t = (case map_of titles t of Some title \<Rightarrow> title | None \<Rightarrow> default_title)"

text \<open>
  What the handler meets: the result of binding the request, the configuration, the
  store, the agent and the provider. \<open>t_ListNotes\<close> gives the types of the notebook's
  notes; \<open>t_GenerateImage k\<close> is the result of the handler's \<open>k\<close>-th call (from 0) of
  \<^verbatim>\<open>s.agent.provider.GenerateImage\<close>, given the model, the prompt and the user;
  \<open>t_FindAllStringIndex\<close> and \<open>t_ToLower\<close> are the two library functions of the slide
  parser.
\<close>

record transform_env =
  t_ShouldBindJSON :: "error + TransformationRequest"
  t_AllowMultipleNotesOfSameType :: bool
  t_ListNotes :: "error + string list"
  t_ListSources :: "error + Source list"
  t_GenerateTransformation :: "TransformationRequest \<Rightarrow> Source list \<Rightarrow> error + string"
  t_ImageModel :: string
  t_GenerateImage :: "nat \<Rightarrow> string \<Rightarrow> string \<Rightarrow> string \<Rightarrow> error + string"
  t_FindAllStringIndex :: "string \<Rightarrow> (nat \<times> nat) list"
  t_ToLower :: "string \<Rightarrow> string"
  t_CreateNote :: "Note \<Rightarrow> error option"

text \<open>A call of the provider's \<^verbatim>\<open>GenerateImage\<close>: model, prompt, user.\<close>

type_synonym image_call = "string \<times> string \<times> string"

text \<open>The loop over the slides of a deck; \<open>style0\<close> is \<^verbatim>\<open>slides[0].Style\<close>.\<close>

fun slides_loop ::
  "transform_env \<Rightarrow> string \<Rightarrow> string \<Rightarrow> Slide list \<Rightarrow> string list \<Rightarrow> image_call list \<Rightarrow>
   string list \<times> image_call list" where
  "slides_loop env userID style0 [] slideURLs calls = (slideURLs, calls)"
| "slides_loop env userID style0 (slide # rest) slideURLs calls =
     (let prompt = ''Style: '' @ style0 @ ''\<newline>\<newline>Slide Content: '' @ slide_Content slide
                     @ ''\<newline>\<newline>'' @ language_note @ ''\<newline>'';
          imageModel = t_ImageModel env
      in case t_GenerateImage env (length calls) imageModel prompt userID of
           Inl err \<Rightarrow>
             slides_loop env userID style0 rest slideURLs (calls @ [(imageModel, prompt, userID)])
         | Inr imagePath \<Rightarrow>
             slides_loop env userID style0 rest
               (slideURLs @ [''/api/files/'' @ filepath_Base imagePath])
               (calls @ [(imageModel, prompt, userID)]))"

text \<open>
  The part of the handler between the generation of the text and the saving of the
  note: the metadata, the image of an infograph, the images of a deck, the content of
  the note. It gives the note and the calls made to the provider; \<open>None\<close> is a panic of
  the slide parser.
\<close>

definition build_note ::
  "transform_env \<Rightarrow> string \<Rightarrow> string \<Rightarrow> TransformationRequest \<Rightarrow> string \<Rightarrow>
   (Note \<times> image_call list) option" where
  "build_note env notebookID userID req content =
     (let metadata = [''length'' \<mapsto> MString (req_Length req), ''format'' \<mapsto> MString (req_Format req)];
          (metadata, calls) =
            (if req_Type req = ''infograph'' then
               (let prompt = content @ ''\<newline>\<newline>'' @ language_note;
                    imageModel = t_ImageModel env
                in case t_GenerateImage env 0 imageModel prompt userID of
                     Inl err \<Rightarrow>
                       (metadata (''image_error'' \<mapsto> MString err), [(imageModel, prompt, userID)])
                   | Inr imagePath \<Rightarrow>
                       (metadata (''image_url'' \<mapsto> MString (''/api/files/'' @ filepath_Base imagePath)),
                        [(imageModel, prompt, userID)]))
             else (metadata, []));
          deck =
            (if req_Type req = ''ppt'' then
               (case ParsePPTSlides (t_ToLower env) (t_FindAllStringIndex env content) content of
                  None \<Rightarrow> None
                | Some slides \<Rightarrow>
                    (if length slides > 10 then
                       Some (metadata (''image_error'' \<mapsto> MString over_limit_message), calls)
                     else
                       (case slides_loop env userID
                               (case slides of [] \<Rightarrow> '''' | first # _ \<Rightarrow> slide_Style first)
                               slides [] calls of
                          (slideURLs, calls) \<Rightarrow>
                            Some (metadata (''slides'' \<mapsto> MStrings slideURLs), calls))))
             else Some (metadata, calls))
      in case deck of
           None \<Rightarrow> None
         | Some (metadata, calls) \<Rightarrow>
             (let noteContent =
                    (if req_Type req = ''infograph'' \<and> metadata ''image_url'' \<noteq> None then ''''
                     else content)
              in Some (\<lparr>note_NotebookID = notebookID, note_Title = getTitleForType (req_Type req),
                          note_Content = noteContent, note_Type = req_Type req,
                          note_SourceIDs = req_SourceIDs req, note_Metadata = metadata\<rparr>,
                       calls)))"

text \<open>
  The answer of the handler: a status with an error message or with the note, or the
  panic.
\<close>

datatype answer = JSON nat "error + Note" | Panic

text \<open>
  The head of the handler, up to the generated text: the answer it gives when it stops
  there, or else the request, its source IDs filled in, and the content that
  \<^verbatim>\<open>GenerateTransformation\<close> has returned.
\<close>

definition prepare_transform :: "transform_env \<Rightarrow> answer + TransformationRequest \<times> string" where
  "prepare_transform env =
     (case t_ShouldBindJSON env of
        Inl err \<Rightarrow> Inl (JSON 400 (Inl err))
      | Inr req \<Rightarrow>
          (case (if \<not> t_AllowMultipleNotesOfSameType env then
                   (case t_ListNotes env of
                      Inl err \<Rightarrow> Some (JSON 500 (Inl ''Failed to check existing notes''))
                    | Inr existing \<Rightarrow>
                        (if req_Type req \<in> set existing then Some (JSON 409 (Inl conflict_message))
                         else None))
                 else None) of
             Some refusal \<Rightarrow> Inl refusal
           | None \<Rightarrow>
               (case t_ListSources env of
                  Inl err \<Rightarrow> Inl (JSON 500 (Inl ''Failed to get sources''))
                | Inr sources \<Rightarrow>
                    (let (sources, req) =
                           (if length (req_SourceIDs req) > 0
                            then (filter (\<lambda>src. ID src \<in> set (req_SourceIDs req)) sources, req)
                            else (sources, req\<lparr>req_SourceIDs := map ID sources\<rparr>))
                     in if length sources = 0 then Inl (JSON 400 (Inl ''No sources available''))
                        else
                          (case t_GenerateTransformation env req sources of
                             Inl err \<Rightarrow> Inl (JSON 500 (Inl (''Generation failed: '' @ err)))
                           | Inr content \<Rightarrow> Inr (req, content))))))"

text \<open>
  The handler: its answer and the calls it has made to the provider. The load of the
  vector index at its head (\<^verbatim>\<open>loadNotebookVectorIndex\<close>, whose error is only logged) and
  what follows the saving of the note (the activity log and the source made of an
  insight report, whose errors are only logged) do not change the answer and are left
  out.
\<close>

definition handleTransform ::
  "transform_env \<Rightarrow> string \<Rightarrow> string \<Rightarrow> answer \<times> image_call list" where
  "handleTransform env notebookID userID =
     (case prepare_transform env of
        Inl stopped \<Rightarrow> (stopped, [])
      | Inr (req, content) \<Rightarrow>
          (case build_note env notebookID userID req content of
             None \<Rightarrow> (Panic, [])
           | Some (note, calls) \<Rightarrow>
               (case t_CreateNote env note of
                  Some err \<Rightarrow> (JSON 500 (Inl ''Failed to save note''), calls)
                | None \<Rightarrow> (JSON 200 (Inr note), calls))))"

subsection \<open>The images of a deck, as the specification words them\<close>

text \<open>The prompt of one slide, and the URLs of a deck: one for every slide whose image
  was generated, in the order of the slides, none for a slide that failed. The image of
  slide \<open>k\<close> (from 0) is the handler's \<open>k\<close>-th call of the provider.\<close>

definition slide_prompt :: "Slide list \<Rightarrow> Slide \<Rightarrow> string" where
  "slide_prompt slides slide =
     ''Style: '' @ (case slides of [] \<Rightarrow> '''' | first # _ \<Rightarrow> slide_Style first)
       @ ''\<newline>\<newline>Slide Content: '' @ slide_Content slide
       @ ''\<newline>\<newline>'' @ language_note @ ''\<newline>''"

definition slide_url :: "transform_env \<Rightarrow> string \<Rightarrow> Slide list \<Rightarrow> nat \<times> Slide \<Rightarrow> string list" where
  "slide_url env userID slides = (\<lambda>(k, slide).
     case t_GenerateImage env k (t_ImageModel env) (slide_prompt slides slide) userID of
       Inl err \<Rightarrow> []
     | Inr imagePath \<Rightarrow> [''/api/files/'' @ filepath_Base imagePath])"

definition deck_urls :: "transform_env \<Rightarrow> string \<Rightarrow> Slide list \<Rightarrow> string list" where
  "deck_urls env userID slides =
     concat (map (slide_url env userID slides) (zip [0 ..< length slides] slides))"

definition deck_calls :: "transform_env \<Rightarrow> string \<Rightarrow> Slide list \<Rightarrow> image_call list" where
  "deck_calls env userID slides =
     map (\<lambda>slide. (t_ImageModel env, slide_prompt slides slide, userID)) slides"

text \<open>The note of a request with one more entry in its metadata than the length and the
  format of the request.\<close>

definition deck_note ::
  "string \<Rightarrow> TransformationRequest \<Rightarrow> string \<Rightarrow> (string \<times> meta_value) \<Rightarrow> Note" where
  "deck_note notebookID req content entry =
     \<lparr>note_NotebookID = notebookID, note_Title = getTitleForType (req_Type req),
      note_Content = content, note_Type = req_Type req, note_SourceIDs = req_SourceIDs req,
      note_Metadata = [''length'' \<mapsto> MString (req_Length req),
                       ''format'' \<mapsto> MString (req_Format req), fst entry \<mapsto> snd entry]\<rparr>"

subsection \<open>A request to try the handler on\<close>

text \<open>
  A notebook with one source, where a request of the given type binds, notes of one
  type may be many, the generation returns the given text, the \<open>k\<close>-th call of the image
  provider returns \<open>images k\<close>, the heading pattern has no match, lowering a string
  leaves it as it is (as for text without capitals), and the note is saved.
\<close>

definition example_env :: "string \<Rightarrow> string \<Rightarrow> (nat \<Rightarrow> error + string) \<Rightarrow> transform_env" where
  "example_env type generated images =
     \<lparr>t_ShouldBindJSON = Inr \<lparr>req_Type = type, req_Length = ''short'', req_Format = ''markdown'',
                                req_Prompt = '''', req_SourceIDs = []\<rparr>,
      t_AllowMultipleNotesOfSameType = True,
      t_ListNotes = Inr [],
      t_ListSources = Inr [\<lparr>ID = ''s1'', Name = ''a'', Type = ''file'', Content = ''alpha''\<rparr>],
      t_GenerateTransformation = (\<lambda>req sources. Inr generated),
      t_ImageModel = ''m'',
      t_GenerateImage = (\<lambda>k model prompt user. images k),
      t_FindAllStringIndex = (\<lambda>s. []),
      t_ToLower = (\<lambda>s. s),
      t_CreateNote = (\<lambda>note. None)\<rparr>"

text \<open>The request of that example once its source IDs are filled in.\<close>

definition example_request :: "string \<Rightarrow> TransformationRequest" where
  "example_request type =
     \<lparr>req_Type = type, req_Length = ''short'', req_Format = ''markdown'', req_Prompt = '''',
      req_SourceIDs = [''s1'']\<rparr>"

section \<open>The example request reaches the generated text\<close>

lemma example_prepared:
  "prepare_transform (example_env type generated images) = Inr (example_request type, generated)"
  by (simp add: prepare_transform_def example_env_def example_request_def)

section \<open>Retrieval of a chat request and the requested notebook\<close>

text \<open>
  Whatever the search does, \<^verbatim>\<open>Chat\<close> gives it the message and \<^verbatim>\<open>MaxSources\<close> only: the
  requested notebook reaches nothing but the field \<^verbatim>\<open>SessionID\<close> of the response.
\<close>

lemma Chat_notebook_only_SessionID:
  "map_sum id (\<lambda>r. r\<lparr>SessionID := ''''\<rparr>)
     (Chat search Format generate MaxSources nb1 message history)
   = map_sum id (\<lambda>r. r\<lparr>SessionID := ''''\<rparr>)
     (Chat search Format generate MaxSources nb2 message history)"
  by (simp add: Chat_def split: sum.splits)

text \<open>
  C1 fails on the code. The index holds one chunk of notebook \<open>A\<close> (source \<open>a.txt\<close>) and
  one of notebook \<open>B\<close> (source \<open>b.txt\<close>), both loaded by \<^verbatim>\<open>IngestText\<close>. A chat request
  against notebook \<open>B\<close> whose message is closest to the chunk of \<open>A\<close> retrieves that chunk:
  the document passed into the prompt context is tagged \<open>A\<close>, and the source of \<open>A\<close> is
  the one in the response's \<^verbatim>\<open>Sources\<close>.
\<close>

theorem chat_retrieves_other_notebook:
  "(let split = (\<lambda>s. [s]);
        score = (\<lambda>q t. if q = t then 1 else 0);
        index = fst (IngestText split (fst (IngestText split [] ''A'' ''a.txt'' ''alpha''))
                       ''B'' ''b.txt'' ''beta'');
        search = SimilaritySearch score index
    in search ''alpha'' 1
         = Inr [\<lparr>PageContent = ''alpha'',
                  Metadata = [''source'' \<mapsto> AString ''a.txt'', ''notebook_id'' \<mapsto> AString ''A'']\<rparr>]
       \<and> map document_notebook (projr (search ''alpha'' 1)) = [Some ''A'']
       \<and> Chat search (\<lambda>h c q. Inr (h @ c @ q)) (\<lambda>p. Inr ''answer'') 1 ''B'' ''alpha'' []
         = Inr \<lparr>Message = ''answer'', Sources = [SourceSummary ''a.txt'' ''a.txt'' ''file''],
                SessionID = ''B'', docs_retrieved = 1\<rparr>)"
  by (simp add: IngestText_def SimilaritySearch_def chunk_document_def document_notebook_def
      Chat_def sourceSummaries_of_def Let_def)

section \<open>The retries of the default provider's image generation\<close>

lemma attempts_step:
  assumes "attempt \<le> 3"
  shows "GenerateImage_attempts respond os model prompt attempt lastErr trace =
         (case attempt_error (respond attempt) of
            Some e \<Rightarrow>
              GenerateImage_attempts respond os model prompt (attempt + 1) (Some e)
                (trace @ (if attempt > 1 then [Sleep 2] else []) @ [GenerateContent model prompt 300])
          | None \<Rightarrow>
              save_shared os (attempt_payload (respond attempt))
                (trace @ (if attempt > 1 then [Sleep 2] else []) @ [GenerateContent model prompt 300]))"
proof (cases "respond attempt")
  case (Inl err)
  then show ?thesis
    using assms by (subst GenerateImage_attempts.simps) (simp add: attempt_error_def)
next
  case (Inr candidates)
  show ?thesis
  proof (cases candidates)
    case Nil
    then show ?thesis
      using assms Inr by (subst GenerateImage_attempts.simps) (simp add: attempt_error_def)
  next
    case (Cons candidate rest)
    show ?thesis
    proof (cases "candidate_Content candidate")
      case None
      then show ?thesis
        using assms Inr Cons
        by (subst GenerateImage_attempts.simps) (simp add: attempt_error_def)
    next
      case (Some parts)
      show ?thesis
      proof (cases "first_InlineData parts = ''''")
        case True
        then show ?thesis
          using assms Inr Cons Some
          by (subst GenerateImage_attempts.simps) (simp add: attempt_error_def)
      next
        case False
        then show ?thesis
          using assms Inr Cons Some
          by (subst GenerateImage_attempts.simps)
             (simp add: attempt_error_def attempt_payload_def save_shared_def shared_path_def
                infograph_name_def Let_def split: option.splits)
      qed
    qed
  qed
qed

lemma attempts_exhausted:
  "3 < attempt \<Longrightarrow> GenerateImage_attempts respond os model prompt attempt (Some e) trace =
     (Inl (''failed to generate image after 3 attempts: '' @ e), trace)"
  by (subst GenerateImage_attempts.simps) simp

lemma attempt_events_1: "attempt_events model prompt 1 = [GenerateContent model prompt 300]"
  by simp

lemma attempt_events_2:
  "attempt_events model prompt 2 =
     [GenerateContent model prompt 300, Sleep 2, GenerateContent model prompt 300]"
  by (simp add: numeral_2_eq_2)

lemma attempt_events_3:
  "attempt_events model prompt 3 =
     [GenerateContent model prompt 300, Sleep 2, GenerateContent model prompt 300,
      Sleep 2, GenerateContent model prompt 300]"
  by (simp add: numeral_3_eq_3)

lemma save_shared_attempts:
  "filter is_attempt (snd (save_shared os d trace)) = filter is_attempt trace"
  by (simp add: save_shared_def is_attempt_def split: option.splits)

lemma save_shared_attempt_events:
  "filter is_attempt_event (snd (save_shared os d trace)) = filter is_attempt_event trace"
  by (simp add: save_shared_def is_attempt_event_def split: option.splits)

lemma save_shared_ok:
  "MkdirAll os ''./data/uploads'' = None \<Longrightarrow> WriteFile os (shared_path os) d = None \<Longrightarrow>
   save_shared os d trace =
     (Inr (shared_path os),
      trace @ [MkdirAll_call ''./data/uploads'', WriteFile_call (shared_path os) d])"
  by (simp add: save_shared_def)

text \<open>The four runs of the loop: success at the first, the second or the third attempt,
  or three failures.\<close>

lemma attempts_from_1:
  "GenerateImage_attempts respond os model prompt 1 None [] =
     (case attempt_error (respond 1) of
        Some e \<Rightarrow> GenerateImage_attempts respond os model prompt 2 (Some e)
                   (attempt_events model prompt 1)
      | None \<Rightarrow> save_shared os (attempt_payload (respond 1)) (attempt_events model prompt 1))"
  using attempts_step [of 1 respond os model prompt None "[]"]
  by (simp add: numeral_2_eq_2 split: option.splits)

lemma attempts_from_2:
  "GenerateImage_attempts respond os model prompt 2 lastErr (attempt_events model prompt 1) =
     (case attempt_error (respond 2) of
        Some e \<Rightarrow> GenerateImage_attempts respond os model prompt 3 (Some e)
                   (attempt_events model prompt 2)
      | None \<Rightarrow> save_shared os (attempt_payload (respond 2)) (attempt_events model prompt 2))"
  using attempts_step [of 2 respond os model prompt lastErr "attempt_events model prompt 1"]
  by (simp add: numeral_2_eq_2 numeral_3_eq_3 split: option.splits)

lemma attempts_from_3:
  "GenerateImage_attempts respond os model prompt 3 lastErr (attempt_events model prompt 2) =
     (case attempt_error (respond 3) of
        Some e \<Rightarrow> (Inl (''failed to generate image after 3 attempts: '' @ e),
                    attempt_events model prompt 3)
      | None \<Rightarrow> save_shared os (attempt_payload (respond 3)) (attempt_events model prompt 3))"
  using attempts_step [of 3 respond os model prompt lastErr "attempt_events model prompt 2"]
  by (simp add: numeral_2_eq_2 numeral_3_eq_3 attempts_exhausted split: option.splits)

lemma Gemini_runs:
  assumes "key \<noteq> ''''"
  shows "Gemini_GenerateImage None respond os key model prompt =
     (case attempt_error (respond 1) of
        None \<Rightarrow> save_shared os (attempt_payload (respond 1)) (attempt_events model prompt 1)
      | Some e1 \<Rightarrow>
          (case attempt_error (respond 2) of
             None \<Rightarrow> save_shared os (attempt_payload (respond 2)) (attempt_events model prompt 2)
           | Some e2 \<Rightarrow>
               (case attempt_error (respond 3) of
                  None \<Rightarrow> save_shared os (attempt_payload (respond 3)) (attempt_events model prompt 3)
                | Some e3 \<Rightarrow> (Inl (''failed to generate image after 3 attempts: '' @ e3),
                              attempt_events model prompt 3))))"
proof -
  have start: "Gemini_GenerateImage None respond os key model prompt =
               GenerateImage_attempts respond os model prompt 1 None []"
    using assms by (simp add: Gemini_GenerateImage_def del: One_nat_def)
  show ?thesis
    unfolding start attempts_from_1 attempts_from_2 attempts_from_3 by (rule refl)
qed

lemma range_1_2: "{1 ..< 2} = {1::nat}"
  by auto

lemma range_1_3: "{1 ..< 3} = {1::nat, 2}"
  by auto

lemma Gemini_success_at:
  assumes "key \<noteq> ''''" and "n \<in> {1, 2, 3}" and "succeeds_at respond n"
  shows "Gemini_GenerateImage None respond os key model prompt =
         save_shared os (attempt_payload (respond n)) (attempt_events model prompt n)"
proof -
  consider "n = 1" | "n = 2" | "n = 3" using assms(2) by auto
  then show ?thesis
  proof cases
    case 1
    then show ?thesis
      using assms(3) unfolding Gemini_runs [OF assms(1)] succeeds_at_def
      by (simp del: attempt_events.simps One_nat_def)
  next
    case 2
    have "attempt_error (respond 1) \<noteq> None" and ok: "attempt_error (respond 2) = None"
      using assms(3) unfolding succeeds_at_def 2 range_1_2 by (simp_all del: One_nat_def)
    then obtain e1 where e1: "attempt_error (respond 1) = Some e1" by auto
    show ?thesis
      unfolding 2 Gemini_runs [OF assms(1)] e1 ok by (simp del: attempt_events.simps)
  next
    case 3
    have "attempt_error (respond 1) \<noteq> None" and "attempt_error (respond 2) \<noteq> None"
      and ok: "attempt_error (respond 3) = None"
      using assms(3) unfolding succeeds_at_def 3 range_1_3 by (simp_all del: One_nat_def)
    then obtain e1 e2 where e: "attempt_error (respond 1) = Some e1"
      "attempt_error (respond 2) = Some e2" by auto
    show ?thesis
      unfolding 3 Gemini_runs [OF assms(1)] e ok by (simp del: attempt_events.simps)
  qed
qed

lemma attempt_events_only:
  "filter is_attempt_event (attempt_events model prompt n) = attempt_events model prompt n"
  by (induction n) (simp_all add: is_attempt_event_def)

lemma attempt_events_count:
  "length (filter is_attempt (attempt_events model prompt n)) = n"
  by (induction n) (simp_all add: is_attempt_def)

lemma Gemini_at_most_3:
  "length (filter is_attempt (snd (Gemini_GenerateImage NewClient respond os key model prompt))) \<le> 3"
proof (cases "key = '''' \<or> NewClient \<noteq> None")
  case True
  then show ?thesis
    by (auto simp: Gemini_GenerateImage_def)
next
  case False
  then have key: "key \<noteq> ''''" and client: "NewClient = None" by auto
  show ?thesis
    unfolding client Gemini_runs [OF key]
    by (simp add: save_shared_attempts attempt_events_count del: attempt_events.simps
        split: option.splits)
qed

text \<open>
  C2. With a credential configured, \<^verbatim>\<open>GeminiClient.GenerateImage\<close> calls the model at
  most 3 times. When attempt \<open>n\<close> of 1, 2, 3 is the first that brings an image payload
  (every attempt before it ended in a transport failure, in no candidate or in a missing
  payload), exactly \<open>n\<close> attempts are made: each is one call under a timeout of 300
  seconds, each but the first comes right after a pause of 2 seconds, nothing is attempted
  after the \<open>n\<close>-th, and when the file is saved the call returns its path. When all
  three attempts fail, the call returns the error that wraps the error of the third.
\<close>

theorem gemini_image_retry_policy:
  assumes "key \<noteq> ''''"
  shows "length (filter is_attempt
           (snd (Gemini_GenerateImage NewClient respond os key model prompt))) \<le> 3
   \<and> (\<forall>n\<in>{1, 2, 3}.
        (\<forall>i\<in>{1 ..< n}. attempt_error (respond i) \<noteq> None) \<and> attempt_error (respond n) = None \<longrightarrow>
        filter is_attempt_event (snd (Gemini_GenerateImage None respond os key model prompt))
          = attempt_events model prompt n
        \<and> (MkdirAll os ''./data/uploads'' = None
             \<and> WriteFile os (shared_path os) (attempt_payload (respond n)) = None \<longrightarrow>
           Gemini_GenerateImage None respond os key model prompt =
             (Inr (shared_path os),
              attempt_events model prompt n
                @ [MkdirAll_call ''./data/uploads'',
                   WriteFile_call (shared_path os) (attempt_payload (respond n))])))
   \<and> (\<forall>e1 e2 e3.
        attempt_error (respond 1) = Some e1 \<and> attempt_error (respond 2) = Some e2
          \<and> attempt_error (respond 3) = Some e3 \<longrightarrow>
        Gemini_GenerateImage None respond os key model prompt =
          (Inl (''failed to generate image after 3 attempts: '' @ e3),
           attempt_events model prompt 3))"
proof (intro conjI ballI allI impI)
  show "length (filter is_attempt
           (snd (Gemini_GenerateImage NewClient respond os key model prompt))) \<le> 3"
    by (rule Gemini_at_most_3)
next
  fix n :: nat
  assume n: "n \<in> {1, 2, 3}"
    and ok: "(\<forall>i\<in>{1 ..< n}. attempt_error (respond i) \<noteq> None) \<and> attempt_error (respond n) = None"
  from ok have "succeeds_at respond n" by (simp add: succeeds_at_def)
  then show "filter is_attempt_event (snd (Gemini_GenerateImage None respond os key model prompt))
          = attempt_events model prompt n"
    by (simp add: Gemini_success_at [OF assms n] save_shared_attempt_events attempt_events_only
        del: attempt_events.simps)
next
  fix n :: nat
  assume n: "n \<in> {1, 2, 3}"
    and ok: "(\<forall>i\<in>{1 ..< n}. attempt_error (respond i) \<noteq> None) \<and> attempt_error (respond n) = None"
    and fs: "MkdirAll os ''./data/uploads'' = None
             \<and> WriteFile os (shared_path os) (attempt_payload (respond n)) = None"
  from ok have "succeeds_at respond n" by (simp add: succeeds_at_def)
  then show "Gemini_GenerateImage None respond os key model prompt =
             (Inr (shared_path os),
              attempt_events model prompt n
                @ [MkdirAll_call ''./data/uploads'',
                   WriteFile_call (shared_path os) (attempt_payload (respond n))])"
    using fs by (simp add: Gemini_success_at [OF assms n] save_shared_ok del: attempt_events.simps)
next
  fix e1 e2 e3
  assume "attempt_error (respond 1) = Some e1 \<and> attempt_error (respond 2) = Some e2
          \<and> attempt_error (respond 3) = Some e3"
  then show "Gemini_GenerateImage None respond os key model prompt =
          (Inl (''failed to generate image after 3 attempts: '' @ e3),
           attempt_events model prompt 3)"
    unfolding Gemini_runs [OF assms] by (simp del: attempt_events.simps One_nat_def)
qed

theorem gemini_image_retry_policy_witness:
  "Gemini_GenerateImage None
      (\<lambda>n. if n = 1 then Inl ''timeout''
           else Inr [Candidate (Some [Part None, Part (Some ''PNG'')])])
      \<lparr>UnixNano = 42, MkdirAll = (\<lambda>dir. None), WriteFile = (\<lambda>path data. None)\<rparr>
      ''k'' ''m'' ''p''
   = (Inr ''data/uploads/infograph_42.png'',
      [GenerateContent ''m'' ''p'' 300, Sleep 2, GenerateContent ''m'' ''p'' 300,
       MkdirAll_call ''./data/uploads'',
       WriteFile_call ''data/uploads/infograph_42.png'' ''PNG''])
   \<and> Gemini_GenerateImage None
      (\<lambda>n. if n = 3 then Inr [] else Inl ''timeout'')
      \<lparr>UnixNano = 42, MkdirAll = (\<lambda>dir. None), WriteFile = (\<lambda>path data. None)\<rparr>
      ''k'' ''m'' ''p''
   = (Inl ''failed to generate image after 3 attempts: no candidates generated'',
      [GenerateContent ''m'' ''p'' 300, Sleep 2, GenerateContent ''m'' ''p'' 300,
       Sleep 2, GenerateContent ''m'' ''p'' 300])"
  (is "Gemini_GenerateImage None ?r1 ?os ?k ?m ?p = ?R1 \<and> Gemini_GenerateImage None ?r2 ?os ?k ?m ?p = ?R2")
proof -
  have key: "?k \<noteq> ''''" by simp
  have path: "shared_path ?os = ''data/uploads/infograph_42.png''"
    by code_simp
  have r1: "attempt_error (?r1 1) = Some ''timeout''" "attempt_error (?r1 2) = None"
    "attempt_payload (?r1 2) = ''PNG''"
    by (simp_all add: attempt_error_def attempt_payload_def)
  have r2: "attempt_error (?r2 1) = Some ''timeout''" "attempt_error (?r2 2) = Some ''timeout''"
    "attempt_error (?r2 3) = Some ''no candidates generated''"
    by (simp_all add: attempt_error_def)
  have "Gemini_GenerateImage None ?r1 ?os ?k ?m ?p = ?R1"
    using gemini_image_retry_policy [OF key, of None ?r1 ?os ?m ?p, THEN conjunct2, THEN conjunct1,
        THEN bspec, of 2] r1
    by (simp add: path range_1_2 attempt_events_2 del: attempt_events.simps One_nat_def)
  moreover have "Gemini_GenerateImage None ?r2 ?os ?k ?m ?p = ?R2"
    using gemini_image_retry_policy [OF key, of None ?r2 ?os ?m ?p, THEN conjunct2, THEN conjunct2,
        THEN spec, THEN spec, THEN spec, of "''timeout''" "''timeout''" "''no candidates generated''"] r2
    by (simp add: attempt_events_3 del: attempt_events.simps One_nat_def)
  ultimately show ?thesis by (rule conjI)
qed

section \<open>Removal of the temporary report file\<close>

text \<open>The file is removed exactly when both the analysis and the read of the report
  succeed: the two error returns come before the command that removes it.\<close>

lemma callDeepInsight_removes_iff:
  "(\<exists>args. (''/bin/rm'', args) \<in> set (snd (callDeepInsight run now summary)))
     \<longleftrightarrow> (\<exists>report. fst (callDeepInsight run now summary) = Inr report)"
  unfolding callDeepInsight_def Let_def
  by (simp split: prod.splits option.splits)

lemma Sprintf_d_1700000000: "Sprintf_d 1700000000 = ''1700000000''"
  by (simp add: Sprintf_d.simps digit_char_def)

text \<open>
  C3 fails on the code. At time 1700000000, with the summary \<open>s\<close>: when the DeepInsight
  command fails, \<^verbatim>\<open>callDeepInsight\<close> returns the error after that one command; when the
  command succeeds and the read of the report fails, it returns after the read. In both
  runs no \<^verbatim>\<open>/bin/rm\<close> is executed, so the temporary report file stays.
\<close>

theorem callDeepInsight_failure_leaves_file:
  "callDeepInsight
      (\<lambda>(name, args). if name = ''./DeepInsight'' then (''partial'', Some ''exit status 1'')
                        else ('''', None))
      1700000000 ''s''
     = (Inl ''DeepInsight command failed: exit status 1, output: partial'',
        [(''./DeepInsight'', [''-o'', ''./tmp/deepinsight_report_1700000000.md'', [CHR 0x27, CHR ''s'', CHR 0x27]])])
   \<and> callDeepInsight
      (\<lambda>(name, args). if name = ''/bin/cat'' then ('''', Some ''signal: killed'')
                        else ('''', None))
      1700000000 ''s''
     = (Inl ''failed to read DeepInsight report: signal: killed'',
        [(''./DeepInsight'', [''-o'', ''./tmp/deepinsight_report_1700000000.md'', [CHR 0x27, CHR ''s'', CHR 0x27]]),
         (''/bin/cat'', [''./tmp/deepinsight_report_1700000000.md''])])"
  by (simp add: callDeepInsight_def escapeShellArg_def Sprintf_d_1700000000 Let_def)

section \<open>The history block of a chat request\<close>

lemma history_loop_lines:
  "history_loop i history hb = hb @ concat (map history_line (take (10 - i) history))"
proof (induction history arbitrary: i hb)
  case Nil
  then show ?case by simp
next
  case (Cons msg rest)
  show ?case
  proof (cases "i \<ge> 10")
    case True
    then show ?thesis by simp
  next
    case False
    then have "10 - i = Suc (10 - (i + 1))" by simp
    then show ?thesis
      using False by (simp add: Cons.IH history_line_def Let_def)
  qed
qed

lemma historyBuilder_first_turns:
  "historyBuilder history = concat (map history_line (first_turns 10 history))"
  by (simp add: historyBuilder_def history_loop_lines first_turns_def)

text \<open>
  C4, as the claim states it, fails: with eleven messages in the history, the history
  block is not the lines of the last ten turns. The loop breaks at index 10, so the block
  holds the first ten messages and the eleventh, the latest, is left out.
\<close>

theorem history_block_last_ten_counterexample:
  "\<not> (historyBuilder
        [ChatMessage ''user'' ''m01'', ChatMessage ''assistant'' ''m02'',
         ChatMessage ''user'' ''m03'', ChatMessage ''assistant'' ''m04'',
         ChatMessage ''user'' ''m05'', ChatMessage ''assistant'' ''m06'',
         ChatMessage ''user'' ''m07'', ChatMessage ''assistant'' ''m08'',
         ChatMessage ''user'' ''m09'', ChatMessage ''assistant'' ''m10'',
         ChatMessage ''user'' ''m11'']
      = concat (map history_line (last_turns 10
        [ChatMessage ''user'' ''m01'', ChatMessage ''assistant'' ''m02'',
         ChatMessage ''user'' ''m03'', ChatMessage ''assistant'' ''m04'',
         ChatMessage ''user'' ''m05'', ChatMessage ''assistant'' ''m06'',
         ChatMessage ''user'' ''m07'', ChatMessage ''assistant'' ''m08'',
         ChatMessage ''user'' ''m09'', ChatMessage ''assistant'' ''m10'',
         ChatMessage ''user'' ''m11''])))"
  by code_simp

text \<open>
  C4, amended. For every chat request, the history block substituted into the chat prompt
  holds exactly the first 10 messages of the history, in order (all of them when the
  history has at most 10), one line per message: the label of the assistant for the role
  \<^verbatim>\<open>assistant\<close> and the label of the user for every other role, a colon and a space, the
  content, a newline. Messages after the tenth have no effect on the request.
\<close>

theorem history_block_first_ten:
  "historyBuilder history = concat (map history_line (first_turns 10 history))
   \<and> (length history \<le> 10 \<longrightarrow> historyBuilder history = concat (map history_line history))
   \<and> Chat search Format generate MaxSources notebookID message history
       = Chat search Format generate MaxSources notebookID message (first_turns 10 history)"
proof -
  have block: "historyBuilder history = concat (map history_line (first_turns 10 history))"
    by (rule historyBuilder_first_turns)
  have twice: "first_turns 10 (first_turns 10 history) = first_turns 10 history"
    by (simp add: first_turns_def)
  have same: "historyBuilder (first_turns 10 history) = historyBuilder history"
    by (simp add: historyBuilder_first_turns twice)
  have "Chat search Format generate MaxSources notebookID message history
       = Chat search Format generate MaxSources notebookID message (first_turns 10 history)"
    unfolding Chat_def same by (rule refl)
  moreover have "length history \<le> 10 \<longrightarrow> historyBuilder history = concat (map history_line history)"
    by (simp add: block first_turns_def)
  ultimately show ?thesis using block by blast
qed

theorem history_block_first_ten_witness:
  "historyBuilder
     [ChatMessage ''user'' ''m01'', ChatMessage ''assistant'' ''m02'',
      ChatMessage ''user'' ''m03'', ChatMessage ''assistant'' ''m04'',
      ChatMessage ''user'' ''m05'', ChatMessage ''assistant'' ''m06'',
      ChatMessage ''user'' ''m07'', ChatMessage ''assistant'' ''m08'',
      ChatMessage ''user'' ''m09'', ChatMessage ''assistant'' ''m10'',
      ChatMessage ''user'' ''m11'']
   = role_user @ '': m01\<newline>'' @ role_assistant @ '': m02\<newline>''
     @ role_user @ '': m03\<newline>'' @ role_assistant @ '': m04\<newline>''
     @ role_user @ '': m05\<newline>'' @ role_assistant @ '': m06\<newline>''
     @ role_user @ '': m07\<newline>'' @ role_assistant @ '': m08\<newline>''
     @ role_user @ '': m09\<newline>'' @ role_assistant @ '': m10\<newline>''"
  (is "historyBuilder ?H = ?R")
proof -
  have e: "concat (map history_line (first_turns 10 ?H)) = ?R"
    by code_simp
  show ?thesis
    using history_block_first_ten [of ?H] e by (simp only:)
qed

section \<open>The directory and the name of a generated image\<close>


lemma digit_char_digit: "d < 10 \<Longrightarrow> digit_char d \<in> set ''0123456789''"
  unfolding digit_char_def by (rule nth_mem) simp

lemma Sprintf_d_digits: "set (Sprintf_d n) \<subseteq> set ''0123456789''"
proof (induction n rule: Sprintf_d.induct)
  case (1 n)
  show ?case
  proof (cases "n < 10")
    case True
    then show ?thesis
      using digit_char_digit [of n] by (subst Sprintf_d.simps) simp
  next
    case False
    have "n mod 10 < 10" by simp
    then have "digit_char (n mod 10) \<in> set ''0123456789''" by (rule digit_char_digit)
    with False "1.IH" show ?thesis
      by (subst Sprintf_d.simps) simp
  qed
qed

lemma Sprintf_d_no_slash: "CHR ''/'' \<notin> set (Sprintf_d n)"
  using Sprintf_d_digits [of n] by auto

lemma digit_char_inj: "a < 10 \<Longrightarrow> b < 10 \<Longrightarrow> digit_char a = digit_char b \<Longrightarrow> a = b"
proof -
  assume a: "a < 10" and b: "b < 10" and eq: "digit_char a = digit_char b"
  have d: "distinct ''0123456789''" by simp
  have "a < length ''0123456789''" "b < length ''0123456789''" using a b by simp_all
  with d eq show "a = b"
    unfolding digit_char_def by (simp only: nth_eq_iff_index_eq)
qed

lemma Sprintf_d_length: "n < 10 \<longleftrightarrow> length (Sprintf_d n) = 1"
proof (cases "n < 10")
  case True
  then show ?thesis by (subst Sprintf_d.simps) simp
next
  case False
  have "Sprintf_d (n div 10) \<noteq> []"
    by (subst Sprintf_d.simps) simp
  with False show ?thesis
    by (subst Sprintf_d.simps) simp
qed

lemma Sprintf_d_inj: "Sprintf_d n = Sprintf_d m \<Longrightarrow> n = m"
proof (induction n arbitrary: m rule: Sprintf_d.induct)
  case (1 n)
  show ?case
  proof (cases "n < 10")
    case True
    then have "length (Sprintf_d m) = 1"
      using "1.prems" Sprintf_d_length [of n] by simp
    then have m: "m < 10" by (simp add: Sprintf_d_length)
    from True m "1.prems" have "digit_char n = digit_char m"
      by (simp add: Sprintf_d.simps [of n] Sprintf_d.simps [of m])
    with True m show ?thesis by (rule digit_char_inj)
  next
    case False
    then have "length (Sprintf_d m) \<noteq> 1"
      using "1.prems" Sprintf_d_length [of n] by simp
    then have m: "\<not> m < 10" by (simp add: Sprintf_d_length)
    from False m "1.prems"
    have eq: "Sprintf_d (n div 10) @ [digit_char (n mod 10)]
              = Sprintf_d (m div 10) @ [digit_char (m mod 10)]"
      by (simp add: Sprintf_d.simps [of n] Sprintf_d.simps [of m])
    then have "Sprintf_d (n div 10) = Sprintf_d (m div 10)"
      and last: "digit_char (n mod 10) = digit_char (m mod 10)"
      by simp_all
    with "1.IH" False have "n div 10 = m div 10" by simp
    moreover have "n mod 10 = m mod 10"
      using last by (intro digit_char_inj) simp_all
    ultimately show ?thesis
      by (metis div_mult_mod_eq)
  qed
qed

lemma split_sep_none: "c \<notin> set s \<Longrightarrow> split_sep c s = [s]"
  by (induction s) auto

lemma split_sep_ne: "split_sep c s \<noteq> []"
  by (induction s) (auto split: list.splits)

lemma split_sep_at: "c \<notin> set a \<Longrightarrow> split_sep c (a @ c # b) = a # split_sep c b"
proof (induction a)
  case Nil
  then show ?case by simp
next
  case (Cons x xs)
  then show ?case by (auto split: list.splits)
qed

lemma Join_uploads:
  assumes "plain_name a"
  shows "filepath_Join [''./data/uploads'', a] = ''data/uploads/'' @ a"
proof -
  have split: "split_sep (CHR ''/'') (''./data/uploads/'' @ a) = [''.'', ''data'', ''uploads'', a]"
    using assms
    split_sep_at [of "CHR ''/''" "''.''" "''data/uploads/'' @ a"]
    split_sep_at [of "CHR ''/''" "''data''" "''uploads/'' @ a"]
    split_sep_at [of "CHR ''/''" "''uploads''" a]
    by (simp add: plain_name_def split_sep_none del: split_sep.simps)
  have "filepath_Clean (''./data/uploads/'' @ a) = ''data/uploads/'' @ a"
    unfolding filepath_Clean_def Let_def split
    using assms by (simp add: plain_name_def)
  then show ?thesis
    by (simp add: filepath_Join_def)
qed

lemma Join_user_file:
  assumes "plain_name u" and "plain_name a"
  shows "filepath_Join [''data/uploads/'' @ u, a] = ''data/uploads/'' @ u @ ''/'' @ a"
proof -
  have split: "split_sep (CHR ''/'') (''data/uploads/'' @ u @ ''/'' @ a) = [''data'', ''uploads'', u, a]"
    using assms
    split_sep_at [of "CHR ''/''" "''data''" "''uploads/'' @ u @ ''/'' @ a"]
    split_sep_at [of "CHR ''/''" "''uploads''" "u @ ''/'' @ a"]
    split_sep_at [of "CHR ''/''" u a]
    by (simp add: plain_name_def split_sep_none del: split_sep.simps)
  have "filepath_Clean (''data/uploads/'' @ u @ ''/'' @ a) = ''data/uploads/'' @ u @ ''/'' @ a"
    unfolding filepath_Clean_def Let_def split
    using assms by (simp add: plain_name_def)
  then show ?thesis
    by (simp add: filepath_Join_def)
qed

lemma infograph_name_plain: "plain_name (infograph_name os)"
  using Sprintf_d_no_slash [of "UnixNano os"]
  by (simp add: plain_name_def infograph_name_def)

lemma download_and_save_ok:
  assumes "download_and_save net os imageURL userID = (Inr path, trace)"
  shows "path = filepath_Join [upload_dir userID, infograph_name os]
         \<and> (\<exists>resp imageData.
               Do net \<lparr>req_method = ''GET'', req_url = imageURL, req_headers = [],
                        req_body = None\<rparr> = Inr resp
               \<and> StatusCode resp = 200 \<and> Body resp = Inr imageData
               \<and> trace = [MkdirAll_call (upload_dir userID), WriteFile_call path imageData])"
  using assms unfolding download_and_save_def Let_def upload_dir_def infograph_name_def
  by (auto split: option.splits sum.splits if_splits)

lemma GLM_GenerateImage_ok:
  assumes "GLM_GenerateImage SignedString Decode net os apiKey model prompt userID = (Inr path, trace)"
  shows "path = filepath_Join [upload_dir userID, infograph_name os]
         \<and> (\<exists>imageURL resp imageData.
               Do net \<lparr>req_method = ''GET'', req_url = imageURL, req_headers = [],
                        req_body = None\<rparr> = Inr resp
               \<and> StatusCode resp = 200 \<and> Body resp = Inr imageData
               \<and> trace = [MkdirAll_call (upload_dir userID), WriteFile_call path imageData])"
proof -
  from assms obtain imageURL where
    "download_and_save net os imageURL userID = (Inr path, trace)"
    unfolding GLM_GenerateImage_def Let_def
    by (auto split: option.splits sum.splits if_splits list.splits)
  from download_and_save_ok [OF this] show ?thesis by blast
qed

lemma ZImage_GenerateImage_ok:
  assumes "ZImage_GenerateImage Decode net os apiKey model prompt userID = (Inr path, trace)"
  shows "path = filepath_Join [upload_dir userID, infograph_name os]
         \<and> (\<exists>imageURL resp imageData.
               Do net \<lparr>req_method = ''GET'', req_url = imageURL, req_headers = [],
                        req_body = None\<rparr> = Inr resp
               \<and> StatusCode resp = 200 \<and> Body resp = Inr imageData
               \<and> trace = [MkdirAll_call (upload_dir userID), WriteFile_call path imageData])"
proof -
  from assms obtain imageURL where
    "download_and_save net os imageURL userID = (Inr path, trace)"
    unfolding ZImage_GenerateImage_def Let_def
    by (auto split: option.splits sum.splits if_splits list.splits)
  from download_and_save_ok [OF this] show ?thesis by blast
qed

lemma save_shared_saved:
  assumes "save_shared os d before = (Inr path, trace)"
  shows "path = filepath_Join [upload_dir '''', infograph_name os]
         \<and> trace = before @ [MkdirAll_call (upload_dir ''''), WriteFile_call path d]"
  using assms unfolding save_shared_def shared_path_def upload_dir_def
  by (auto split: option.splits)

lemma Gemini_GenerateImage_ok:
  assumes "Gemini_GenerateImage NewClient respond os key model prompt = (Inr path, trace)"
  shows "path = filepath_Join [upload_dir '''', infograph_name os]
         \<and> (\<exists>n\<in>{1, 2, 3}.
               attempt_error (respond n) = None
               \<and> trace = attempt_events model prompt n
                   @ [MkdirAll_call (upload_dir ''''),
                      WriteFile_call path (attempt_payload (respond n))])"
proof -
  from assms have key: "key \<noteq> ''''" and client: "NewClient = None"
    by (auto simp: Gemini_GenerateImage_def split: if_splits option.splits)
  from assms consider
      "attempt_error (respond 1) = None"
      "save_shared os (attempt_payload (respond 1)) (attempt_events model prompt 1) = (Inr path, trace)"
    | "attempt_error (respond 2) = None"
      "save_shared os (attempt_payload (respond 2)) (attempt_events model prompt 2) = (Inr path, trace)"
    | "attempt_error (respond 3) = None"
      "save_shared os (attempt_payload (respond 3)) (attempt_events model prompt 3) = (Inr path, trace)"
    unfolding client Gemini_runs [OF key]
    by (auto split: option.splits)
  then show ?thesis
  proof cases
    case 1
    from save_shared_saved [OF 1(2)] 1(1) show ?thesis by blast
  next
    case 2
    from save_shared_saved [OF 2(2)] 2(1) show ?thesis by blast
  next
    case 3
    from save_shared_saved [OF 3(2)] 3(1) show ?thesis by blast
  qed
qed

text \<open>
  C5. A successful \<^verbatim>\<open>GenerateImage\<close> of each provider writes the image to the path it
  returns: the file \<^verbatim>\<open>infograph_<nanoseconds>.png\<close>, named after the clock, in the
  directory of the request. GLM and Z-Image are given the user: with a user identity
  the directory is the user's own under the uploads directory, without one it is the
  shared uploads directory. The default provider's \<^verbatim>\<open>GenerateImage\<close> has no parameter
  for a user, so no user identity is available to it, and it saves in the shared
  directory. For a user identity that is a plain name the path is
  \<^verbatim>\<open>data/uploads/<user>/infograph_<nanoseconds>.png\<close>, and in the shared directory
  \<^verbatim>\<open>data/uploads/infograph_<nanoseconds>.png\<close>. Two names are equal only if the two
  clock values are.
\<close>

theorem generated_image_saved_path:
  "(\<forall>path trace.
      GLM_GenerateImage SignedString Decode net os apiKey model prompt userID = (Inr path, trace) \<longrightarrow>
      path = filepath_Join [upload_dir userID, infograph_name os]
      \<and> (\<exists>imageURL resp imageData.
            Do net \<lparr>req_method = ''GET'', req_url = imageURL, req_headers = [],
                     req_body = None\<rparr> = Inr resp
            \<and> StatusCode resp = 200 \<and> Body resp = Inr imageData
            \<and> trace = [MkdirAll_call (upload_dir userID), WriteFile_call path imageData]))
   \<and> (\<forall>path trace.
      ZImage_GenerateImage Decode net os apiKey model prompt userID = (Inr path, trace) \<longrightarrow>
      path = filepath_Join [upload_dir userID, infograph_name os]
      \<and> (\<exists>imageURL resp imageData.
            Do net \<lparr>req_method = ''GET'', req_url = imageURL, req_headers = [],
                     req_body = None\<rparr> = Inr resp
            \<and> StatusCode resp = 200 \<and> Body resp = Inr imageData
            \<and> trace = [MkdirAll_call (upload_dir userID), WriteFile_call path imageData]))
   \<and> (\<forall>path trace.
      Gemini_GenerateImage NewClient respond os apiKey model prompt = (Inr path, trace) \<longrightarrow>
      path = filepath_Join [upload_dir '''', infograph_name os]
      \<and> (\<exists>n\<in>{1, 2, 3}.
            attempt_error (respond n) = None
            \<and> trace = attempt_events model prompt n
                @ [MkdirAll_call (upload_dir ''''),
                   WriteFile_call path (attempt_payload (respond n))]))
   \<and> (plain_name userID \<longrightarrow>
        upload_dir userID = ''data/uploads/'' @ userID
        \<and> filepath_Join [upload_dir userID, infograph_name os]
            = ''data/uploads/'' @ userID @ ''/'' @ infograph_name os)
   \<and> upload_dir '''' = ''./data/uploads''
   \<and> filepath_Join [upload_dir '''', infograph_name os] = ''data/uploads/'' @ infograph_name os
   \<and> infograph_name os = ''infograph_'' @ Sprintf_d (UnixNano os) @ ''.png''
   \<and> (\<forall>os'. infograph_name os' = infograph_name os \<longrightarrow> UnixNano os' = UnixNano os)"
proof (intro conjI allI impI)
  fix path trace
  assume "GLM_GenerateImage SignedString Decode net os apiKey model prompt userID = (Inr path, trace)"
  from GLM_GenerateImage_ok [OF this]
  show "path = filepath_Join [upload_dir userID, infograph_name os]"
    and "\<exists>imageURL resp imageData.
            Do net \<lparr>req_method = ''GET'', req_url = imageURL, req_headers = [],
                     req_body = None\<rparr> = Inr resp
            \<and> StatusCode resp = 200 \<and> Body resp = Inr imageData
            \<and> trace = [MkdirAll_call (upload_dir userID), WriteFile_call path imageData]"
    by blast+
next
  fix path trace
  assume "ZImage_GenerateImage Decode net os apiKey model prompt userID = (Inr path, trace)"
  from ZImage_GenerateImage_ok [OF this]
  show "path = filepath_Join [upload_dir userID, infograph_name os]"
    and "\<exists>imageURL resp imageData.
            Do net \<lparr>req_method = ''GET'', req_url = imageURL, req_headers = [],
                     req_body = None\<rparr> = Inr resp
            \<and> StatusCode resp = 200 \<and> Body resp = Inr imageData
            \<and> trace = [MkdirAll_call (upload_dir userID), WriteFile_call path imageData]"
    by blast+
next
  fix path trace
  assume "Gemini_GenerateImage NewClient respond os apiKey model prompt = (Inr path, trace)"
  from Gemini_GenerateImage_ok [OF this]
  show "path = filepath_Join [upload_dir '''', infograph_name os]"
    and "\<exists>n\<in>{1, 2, 3}.
            attempt_error (respond n) = None
            \<and> trace = attempt_events model prompt n
                @ [MkdirAll_call (upload_dir ''''),
                   WriteFile_call path (attempt_payload (respond n))]"
    by blast+
next
  assume plain: "plain_name userID"
  then show dir: "upload_dir userID = ''data/uploads/'' @ userID"
    by (simp add: upload_dir_def Join_uploads plain_name_def)
  show "filepath_Join [upload_dir userID, infograph_name os]
            = ''data/uploads/'' @ userID @ ''/'' @ infograph_name os"
    unfolding dir by (rule Join_user_file [OF plain infograph_name_plain])
next
  show "upload_dir '''' = ''./data/uploads''"
    by (simp add: upload_dir_def)
  then show "filepath_Join [upload_dir '''', infograph_name os] = ''data/uploads/'' @ infograph_name os"
    by (simp only: Join_uploads [OF infograph_name_plain])
next
  show "infograph_name os = ''infograph_'' @ Sprintf_d (UnixNano os) @ ''.png''"
    by (simp add: infograph_name_def)
next
  fix os' :: os_env
  assume "infograph_name os' = infograph_name os"
  then have "Sprintf_d (UnixNano os') = Sprintf_d (UnixNano os)"
    by (simp add: infograph_name_def)
  then show "UnixNano os' = UnixNano os"
    by (rule Sprintf_d_inj)
qed

theorem generated_image_saved_path_witness:
  "GLM_GenerateImage (\<lambda>apiID apiSecret. Inr ''token'')
      (\<lambda>bytes. Inr \<lparr>result_URLs = [''https://img''], result_Code = '''', result_Message = ''''\<rparr>)
      \<lparr>NewRequest = (\<lambda>method url. None),
        Do = (\<lambda>req. Inr \<lparr>StatusCode = 200, Body = Inr ''PNG''\<rparr>)\<rparr>
      \<lparr>UnixNano = 42, MkdirAll = (\<lambda>dir. None), WriteFile = (\<lambda>path data. None)\<rparr>
      ''id.secret'' ''model'' ''prompt'' ''u1''
     = (Inr ''data/uploads/u1/infograph_42.png'',
        [MkdirAll_call ''data/uploads/u1'',
         WriteFile_call ''data/uploads/u1/infograph_42.png'' ''PNG''])
   \<and> ZImage_GenerateImage
      (\<lambda>bytes. Inr \<lparr>result_URLs = [''https://img''], result_Code = '''', result_Message = ''''\<rparr>)
      \<lparr>NewRequest = (\<lambda>method url. None),
        Do = (\<lambda>req. Inr \<lparr>StatusCode = 200, Body = Inr ''PNG''\<rparr>)\<rparr>
      \<lparr>UnixNano = 42, MkdirAll = (\<lambda>dir. None), WriteFile = (\<lambda>path data. None)\<rparr>
      ''key'' ''model'' ''prompt'' ''''
     = (Inr ''data/uploads/infograph_42.png'',
        [MkdirAll_call ''./data/uploads'',
         WriteFile_call ''data/uploads/infograph_42.png'' ''PNG''])
   \<and> Gemini_GenerateImage None
      (\<lambda>n. Inr [Candidate (Some [Part (Some ''PNG'')])])
      \<lparr>UnixNano = 42, MkdirAll = (\<lambda>dir. None), WriteFile = (\<lambda>path data. None)\<rparr>
      ''key'' ''model'' ''prompt''
     = (Inr ''data/uploads/infograph_42.png'',
        [GenerateContent ''model'' ''prompt'' 300, MkdirAll_call ''./data/uploads'',
         WriteFile_call ''data/uploads/infograph_42.png'' ''PNG''])"
  (is "GLM_GenerateImage ?sign ?dec ?net ?os ?k1 ?m ?p ?u = ?R1
       \<and> ZImage_GenerateImage ?dec ?net ?os ?k2 ?m ?p ?none = ?R2
       \<and> Gemini_GenerateImage None ?resp ?os ?k2 ?m ?p = ?R3")
proof -
  note saved = generated_image_saved_path [where userID = ?u and os = ?os]
  have name: "infograph_name ?os = ''infograph_42.png''"
    by (simp add: infograph_name_def Sprintf_d.simps digit_char_def)
  have plain: "plain_name ?u"
    by (simp add: plain_name_def)
  note per_user = saved [THEN conjunct2, THEN conjunct2, THEN conjunct2, THEN conjunct1,
      THEN mp, OF plain]
  have user: "upload_dir ?u = ''data/uploads/u1''"
    "filepath_Join [upload_dir ?u, infograph_name ?os] = ''data/uploads/u1/infograph_42.png''"
    using per_user [THEN conjunct1] per_user [THEN conjunct2] unfolding name by simp_all
  have shared: "upload_dir '''' = ''./data/uploads''"
    "filepath_Join [upload_dir '''', infograph_name ?os] = ''data/uploads/infograph_42.png''"
    using saved [THEN conjunct2, THEN conjunct2, THEN conjunct2, THEN conjunct2, THEN conjunct1]
      saved [THEN conjunct2, THEN conjunct2, THEN conjunct2, THEN conjunct2, THEN conjunct2,
        THEN conjunct1]
    unfolding name by simp_all
  have key: "split_sep (CHR ''.'') ?k1 = [''id'', ''secret'']"
    by simp
  have "GLM_GenerateImage ?sign ?dec ?net ?os ?k1 ?m ?p ?u =
          (Inr (filepath_Join [upload_dir ?u, infograph_name ?os]),
           [MkdirAll_call (upload_dir ?u),
            WriteFile_call (filepath_Join [upload_dir ?u, infograph_name ?os]) ''PNG''])"
    by (simp add: GLM_GenerateImage_def generateToken_def download_and_save_def upload_dir_def
        infograph_name_def key Let_def del: split_sep.simps)
  then have glm: "GLM_GenerateImage ?sign ?dec ?net ?os ?k1 ?m ?p ?u = ?R1"
    by (simp only: user(2)) (simp only: user(1))
  have "ZImage_GenerateImage ?dec ?net ?os ?k2 ?m ?p ?none =
          (Inr (filepath_Join [upload_dir '''', infograph_name ?os]),
           [MkdirAll_call (upload_dir ''''),
            WriteFile_call (filepath_Join [upload_dir '''', infograph_name ?os]) ''PNG''])"
    by (simp add: ZImage_GenerateImage_def download_and_save_def upload_dir_def
        infograph_name_def Let_def)
  then have zimage: "ZImage_GenerateImage ?dec ?net ?os ?k2 ?m ?p ?none = ?R2"
    by (simp only: shared(2)) (simp only: shared(1))
  have "Gemini_GenerateImage None ?resp ?os ?k2 ?m ?p =
          (Inr (filepath_Join [upload_dir '''', infograph_name ?os]),
           [GenerateContent ''model'' ''prompt'' 300, MkdirAll_call (upload_dir ''''),
            WriteFile_call (filepath_Join [upload_dir '''', infograph_name ?os]) ''PNG''])"
    by (simp add: Gemini_GenerateImage_def GenerateImage_attempts.simps [of _ _ _ _ 1]
        upload_dir_def infograph_name_def Let_def del: One_nat_def)
  then have gemini: "Gemini_GenerateImage None ?resp ?os ?k2 ?m ?p = ?R3"
    by (simp only: shared(2)) (simp only: shared(1))
  from glm zimage gemini show ?thesis by (intro conjI)
qed

section \<open>The images of a slide deck\<close>


lemma slides_loop_result:
  "slides_loop env userID style0 slides slideURLs calls =
     (slideURLs @ concat (map (\<lambda>(k, slide).
          case t_GenerateImage env k (t_ImageModel env)
                 (''Style: '' @ style0 @ ''\<newline>\<newline>Slide Content: '' @ slide_Content slide
                    @ ''\<newline>\<newline>'' @ language_note @ ''\<newline>'') userID of
            Inl err \<Rightarrow> []
          | Inr imagePath \<Rightarrow> [''/api/files/'' @ filepath_Base imagePath])
        (zip [length calls ..< length calls + length slides] slides)),
      calls @ map (\<lambda>slide. (t_ImageModel env,
          ''Style: '' @ style0 @ ''\<newline>\<newline>Slide Content: '' @ slide_Content slide
            @ ''\<newline>\<newline>'' @ language_note @ ''\<newline>'', userID)) slides)"
proof (induction slides arbitrary: slideURLs calls)
  case Nil
  then show ?case by simp
next
  case (Cons slide rest)
  have step: "[length calls ..< length calls + length (slide # rest)] =
              length calls # [Suc (length calls) ..< Suc (length calls) + length rest]"
    by (subst upt_rec) simp
  show ?case
    unfolding step
    by (simp add: Cons.IH Let_def split: sum.splits)
qed

lemma deck_loop:
  "slides_loop env userID (case slides of [] \<Rightarrow> '''' | first # _ \<Rightarrow> slide_Style first) slides [] [] =
     (deck_urls env userID slides, deck_calls env userID slides)"
  by (simp add: slides_loop_result deck_urls_def deck_calls_def slide_url_def slide_prompt_def)

lemma build_note_deck:
  assumes "req_Type req = ''ppt''"
    and "ParsePPTSlides (t_ToLower env) (t_FindAllStringIndex env content) content = Some slides"
  shows "build_note env notebookID userID req content =
     (if length slides > 10
      then Some (deck_note notebookID req content (''image_error'', MString over_limit_message), [])
      else Some (deck_note notebookID req content
                   (''slides'', MStrings (deck_urls env userID slides)),
                 deck_calls env userID slides))"
  using assms by (simp add: build_note_def deck_loop deck_note_def Let_def)

text \<open>
  C6. A slide-deck request that has reached the generated text, the text parsing into
  \<open>slides\<close>. With more than 10 slides the handler makes no call of the image provider
  and stores the over-limit message under \<^verbatim>\<open>image_error\<close> in the metadata of the note.
  With 10 slides or fewer it makes exactly one call per slide, in the order of the
  slides, and stores under \<^verbatim>\<open>slides\<close> the URLs of the slides whose call succeeded, in
  order: a slide whose call failed has no URL and the slides after it are still
  generated. In both cases the note is the answer, with status 200, when the store
  saves it.
\<close>

theorem deck_images_bounded:
  assumes "prepare_transform env = Inr (req, content)"
    and "req_Type req = ''ppt''"
    and "ParsePPTSlides (t_ToLower env) (t_FindAllStringIndex env content) content = Some slides"
  shows "(length slides > 10 \<longrightarrow>
            snd (handleTransform env notebookID userID) = []
            \<and> build_note env notebookID userID req content =
                Some (deck_note notebookID req content (''image_error'', MString over_limit_message), [])
            \<and> (t_CreateNote env
                  (deck_note notebookID req content (''image_error'', MString over_limit_message)) = None
                \<longrightarrow> fst (handleTransform env notebookID userID) =
                    JSON 200 (Inr (deck_note notebookID req content
                                     (''image_error'', MString over_limit_message)))))
       \<and> (length slides \<le> 10 \<longrightarrow>
            snd (handleTransform env notebookID userID) = deck_calls env userID slides
            \<and> length (deck_calls env userID slides) = length slides
            \<and> build_note env notebookID userID req content =
                Some (deck_note notebookID req content
                        (''slides'', MStrings (deck_urls env userID slides)),
                      deck_calls env userID slides)
            \<and> (t_CreateNote env
                  (deck_note notebookID req content
                     (''slides'', MStrings (deck_urls env userID slides))) = None
                \<longrightarrow> fst (handleTransform env notebookID userID) =
                    JSON 200 (Inr (deck_note notebookID req content
                                     (''slides'', MStrings (deck_urls env userID slides))))))"
proof -
  note built = build_note_deck [OF assms(2) assms(3), of notebookID userID]
  show ?thesis
  proof (cases "length slides > 10")
    case True
    then show ?thesis
      using assms(1) built
      by (simp add: handleTransform_def split: option.splits)
  next
    case False
    then show ?thesis
      using assms(1) built
      by (simp add: handleTransform_def deck_calls_def split: option.splits)
  qed
qed

theorem deck_images_bounded_witness:
  "handleTransform
     (example_env ''ppt'' ''// NARRATIVE GOAL a // NARRATIVE GOAL b''
        (\<lambda>k. if k = 0 then Inl ''boom'' else Inr ''data/uploads/u1/infograph_7.png''))
     ''nb'' ''u1''
   = (JSON 200 (Inr (deck_note ''nb'' (example_request ''ppt'')
                       ''// NARRATIVE GOAL a // NARRATIVE GOAL b''
                       (''slides'', MStrings [''/api/files/infograph_7.png'']))),
      [(''m'', ''Style: \<newline>\<newline>Slide Content: // NARRATIVE GOAL a \<newline>\<newline>'' @ language_note @ ''\<newline>'', ''u1''),
       (''m'', ''Style: \<newline>\<newline>Slide Content: // NARRATIVE GOAL b\<newline>\<newline>'' @ language_note @ ''\<newline>'', ''u1'')])
   \<and> handleTransform
     (example_env ''ppt'' (concat (replicate 11 ''// NARRATIVE GOAL x''))
        (\<lambda>k. Inr ''data/uploads/u1/infograph_7.png''))
     ''nb'' ''u1''
   = (JSON 200 (Inr (deck_note ''nb'' (example_request ''ppt'')
                       (concat (replicate 11 ''// NARRATIVE GOAL x''))
                       (''image_error'', MString over_limit_message))),
      [])"
  (is "handleTransform ?env2 ?nb ?u = (?a2, ?c2) \<and> handleTransform ?env11 ?nb ?u = (?a11, [])")
proof -
  let ?t2 = "''// NARRATIVE GOAL a // NARRATIVE GOAL b''"
  let ?t11 = "concat (replicate 11 ''// NARRATIVE GOAL x'')"
  let ?s2 = "[Slide '''' ''// NARRATIVE GOAL a '', Slide '''' ''// NARRATIVE GOAL b'']"
  let ?s11 = "replicate 11 (Slide '''' ''// NARRATIVE GOAL x'')"
  have p2: "ParsePPTSlides (t_ToLower ?env2) (t_FindAllStringIndex ?env2 ?t2) ?t2 = Some ?s2"
    unfolding example_env_def by code_simp
  have p11: "ParsePPTSlides (t_ToLower ?env11) (t_FindAllStringIndex ?env11 ?t11) ?t11 = Some ?s11"
    unfolding example_env_def by code_simp
  have ty: "req_Type (example_request ''ppt'') = ''ppt''"
    by (simp add: example_request_def)
  have urls: "deck_urls ?env2 ?u ?s2 = [''/api/files/infograph_7.png'']"
    by (simp add: deck_urls_def slide_url_def example_env_def filepath_Base_def upt_rec)
  have calls: "deck_calls ?env2 ?u ?s2 = ?c2"
    by (simp add: deck_calls_def slide_prompt_def example_env_def)
  have saved: "t_CreateNote ?env2 n = None" "t_CreateNote ?env11 n = None" for n
    by (simp_all add: example_env_def)
  have "handleTransform ?env2 ?nb ?u = (?a2, ?c2)"
    using deck_images_bounded [OF example_prepared ty p2, of ?nb ?u]
    by (simp add: urls calls saved prod_eq_iff)
  moreover have "handleTransform ?env11 ?nb ?u = (?a11, [])"
    using deck_images_bounded [OF example_prepared ty p11, of ?nb ?u]
    by (simp add: saved prod_eq_iff)
  ultimately show ?thesis by (rule conjI)
qed

section \<open>Truncation of source content\<close>

lemma context_limit_value: "context_limit mcl = (if mcl \<le> 0 then 100000 else mcl)"
  by (simp add: context_limit_def)

lemma sourceContext_loop_sections:
  "sourceContext_loop mcl i sources sb =
     sb @ concat (map (\<lambda>(k, src). spec_section (if mcl \<le> 0 then 100000 else mcl) k src)
                   (zip [i ..< i + length sources] sources))"
proof (induction sources arbitrary: i sb)
  case Nil
  then show ?case by simp
next
  case (Cons src rest)
  have step: "[i ..< i + length (src # rest)] = i # [Suc i ..< Suc i + length rest]"
    by (subst upt_rec) simp
  show ?case
  proof (cases "mcl \<le> 0")
    case True
    then show ?thesis
      unfolding step
      by (simp add: Cons.IH Let_def context_limit_value spec_section_def spec_body_def
          truncation_marker_def empty_placeholder_def)
  next
    case False
    then show ?thesis
      unfolding step
      by (simp add: Cons.IH Let_def context_limit_value spec_section_def spec_body_def
          truncation_marker_def empty_placeholder_def)
  qed
qed

text \<open>
  C7, as the claim states it, fails: lengths are not counted in characters. The content
  below is three characters in nine bytes and the configured maximum is 4. The content
  is not empty and its three characters are within the limit, yet it does not appear in
  full: its nine bytes exceed 4, so the section holds its first four bytes, which end
  inside the second character, and the marker with the total length 9.
\<close>

theorem truncation_counts_bytes_counterexample:
  "character_count
      [CHR 0xE6, CHR 0x9D, CHR 0xA5, CHR 0xE6, CHR 0xBA, CHR 0x90, CHR 0xE4, CHR 0xB8, CHR 0xAD]
     = 3
   \<and> sourceContext 4
       [\<lparr>ID = ''s1'', Name = ''a'', Type = ''file'',
         Content = [CHR 0xE6, CHR 0x9D, CHR 0xA5, CHR 0xE6, CHR 0xBA, CHR 0x90, CHR 0xE4, CHR 0xB8,
                    CHR 0xAD]\<rparr>]
     = ''\<newline>## Source 1: a\<newline>'' @ [CHR 0xE6, CHR 0x9D, CHR 0xA5, CHR 0xE6]
         @ ''\<newline>... [Content truncated, total length: 9]\<newline>''
   \<and> sourceContext 4
       [\<lparr>ID = ''s1'', Name = ''a'', Type = ''file'',
         Content = [CHR 0xE6, CHR 0x9D, CHR 0xA5, CHR 0xE6, CHR 0xBA, CHR 0x90, CHR 0xE4, CHR 0xB8,
                    CHR 0xAD]\<rparr>]
     \<noteq> ''\<newline>## Source 1: a\<newline>''
         @ [CHR 0xE6, CHR 0x9D, CHR 0xA5, CHR 0xE6, CHR 0xBA, CHR 0x90, CHR 0xE4, CHR 0xB8, CHR 0xAD]
         @ ''\<newline>''"
  by code_simp

text \<open>
  C7, amended. The source context assembled for a transformation is the concatenation,
  in order, of one section per candidate source: the header, the body and a newline.
  Lengths are counted in bytes. With \<open>limit\<close> the configured maximum context length, or
  100000 when the configured value is not positive: content of more than \<open>limit\<close> bytes
  gives exactly its first \<open>limit\<close> bytes followed by the truncation marker that states
  the original length in bytes; non-empty content of at most \<open>limit\<close> bytes appears in
  full; empty content gives the placeholder with the source's name and type.
\<close>

theorem transformation_sections_truncated:
  "sourceContext mcl sources =
     concat (map (\<lambda>(k, src). spec_section (if mcl \<le> 0 then 100000 else mcl) k src)
               (zip [0 ..< length sources] sources))
   \<and> (\<forall>i src. spec_section (if mcl \<le> 0 then 100000 else mcl) i src =
         ''\<newline>## Source '' @ Sprintf_d (i + 1) @ '': '' @ Name src @ ''\<newline>''
           @ spec_body (if mcl \<le> 0 then 100000 else mcl) src @ ''\<newline>'')
   \<and> (\<forall>src. int (length (Content src)) > (if mcl \<le> 0 then 100000 else mcl) \<longrightarrow>
         spec_body (if mcl \<le> 0 then 100000 else mcl) src =
           take (nat (if mcl \<le> 0 then 100000 else mcl)) (Content src)
             @ ''\<newline>... [Content truncated, total length: ''
             @ Sprintf_d (length (Content src)) @ '']'')
   \<and> (\<forall>src. Content src \<noteq> ''''
           \<and> int (length (Content src)) \<le> (if mcl \<le> 0 then 100000 else mcl) \<longrightarrow>
         spec_body (if mcl \<le> 0 then 100000 else mcl) src = Content src)
   \<and> (\<forall>src. Content src = '''' \<longrightarrow>
         spec_body (if mcl \<le> 0 then 100000 else mcl) src =
           ''[Source content: '' @ Name src @ '', type: '' @ Type src @ '']'')"
proof -
  let ?limit = "if mcl \<le> 0 then 100000 else mcl"
  have pos: "0 < ?limit" by simp
  have "sourceContext mcl sources =
     concat (map (\<lambda>(k, src). spec_section ?limit k src) (zip [0 ..< length sources] sources))"
    by (simp add: sourceContext_def sourceContext_loop_sections)
  moreover have "\<forall>i src. spec_section ?limit i src =
         ''\<newline>## Source '' @ Sprintf_d (i + 1) @ '': '' @ Name src @ ''\<newline>''
           @ spec_body ?limit src @ ''\<newline>''"
    by (simp add: spec_section_def)
  moreover have "\<forall>src. int (length (Content src)) > ?limit \<longrightarrow>
         spec_body ?limit src =
           take (nat ?limit) (Content src)
             @ ''\<newline>... [Content truncated, total length: ''
             @ Sprintf_d (length (Content src)) @ '']''"
    by (simp add: spec_body_def truncation_marker_def)
  moreover have "\<forall>src. Content src \<noteq> '''' \<and> int (length (Content src)) \<le> ?limit \<longrightarrow>
         spec_body ?limit src = Content src"
    by (simp add: spec_body_def)
  moreover have "\<forall>src. Content src = '''' \<longrightarrow>
         spec_body ?limit src =
           ''[Source content: '' @ Name src @ '', type: '' @ Type src @ '']''"
    using pos by (simp add: spec_body_def empty_placeholder_def)
  ultimately show ?thesis by blast
qed

theorem transformation_sections_truncated_witness:
  "sourceContext 5
     [\<lparr>ID = ''s1'', Name = ''a'', Type = ''file'', Content = ''hello world''\<rparr>,
      \<lparr>ID = ''s2'', Name = ''b'', Type = ''url'', Content = ''''\<rparr>,
      \<lparr>ID = ''s3'', Name = ''c'', Type = ''file'', Content = ''hello''\<rparr>]
   = ''\<newline>## Source 1: a\<newline>hello\<newline>... [Content truncated, total length: 11]\<newline>''
     @ ''\<newline>## Source 2: b\<newline>[Source content: b, type: url]\<newline>''
     @ ''\<newline>## Source 3: c\<newline>hello\<newline>''
   \<and> sourceContext 0
     [\<lparr>ID = ''s1'', Name = ''a'', Type = ''file'', Content = ''hello world''\<rparr>]
   = ''\<newline>## Source 1: a\<newline>hello world\<newline>''"
  (is "sourceContext 5 ?S = ?R \<and> sourceContext 0 ?T = ?Q")
proof -
  have e: "concat (map (\<lambda>(k, src). spec_section (if (5::int) \<le> 0 then 100000 else 5) k src)
                     (zip [0 ..< length ?S] ?S)) = ?R"
    by code_simp
  have f: "concat (map (\<lambda>(k, src). spec_section (if (0::int) \<le> 0 then 100000 else 0) k src)
                     (zip [0 ..< length ?T] ?T)) = ?Q"
    by code_simp
  have "sourceContext 5 ?S = ?R"
    using transformation_sections_truncated [of 5 ?S, THEN conjunct1] e by (simp only:)
  moreover have "sourceContext 0 ?T = ?Q"
    using transformation_sections_truncated [of 0 ?T, THEN conjunct1] f by (simp only:)
  ultimately show ?thesis by (rule conjI)
qed

section \<open>The on-demand loader loads a notebook once\<close>

text \<open>What the loop over the sources leaves: the vector store after one ingestion per
  source with content, in order, and the calls before it followed by those ingestions.\<close>

lemma load_sources_store:
  "fst (load_sources ingest nb sources (v, calls)) =
     foldl (\<lambda>v src. snd (ingest v nb (Name src) (Content src))) v
       (filter (\<lambda>src. Content src \<noteq> '''') sources)"
proof (induction sources arbitrary: v calls)
  case Nil
  then show ?case by simp
next
  case (Cons src rest)
  show ?case
  proof (cases "Content src = ''''")
    case True
    then show ?thesis by (simp add: Cons.IH)
  next
    case False
    obtain result v' where "ingest v nb (Name src) (Content src) = (result, v')"
      by (cases "ingest v nb (Name src) (Content src)")
    with False show ?thesis by (simp add: Cons.IH)
  qed
qed

lemma load_sources_result:
  "snd (load_sources ingest nb sources (v, calls)) =
     calls @ map (\<lambda>src. IngestText_call nb (Name src) (Content src))
               (filter (\<lambda>src. Content src \<noteq> '''') sources)"
proof (induction sources arbitrary: v calls)
  case Nil
  then show ?case by simp
next
  case (Cons src rest)
  show ?case
  proof (cases "Content src = ''''")
    case True
    then show ?thesis by (simp add: Cons.IH)
  next
    case False
    obtain result v' where "ingest v nb (Name src) (Content src) = (result, v')"
      by (cases "ingest v nb (Name src) (Content src)")
    with False show ?thesis by (simp add: Cons.IH)
  qed
qed

lemma loaded_returns_at_once:
  "loadedNotebooks s nb \<Longrightarrow> loadNotebookVectorIndex list ingest s nb = (None, s)"
  by (simp add: loadNotebookVectorIndex_def)

lemma loaded_repeatedly:
  "loadedNotebooks s nb \<Longrightarrow> load_repeatedly list ingest nb n s = s"
  by (induction n) (simp_all add: loaded_returns_at_once)

lemma first_load:
  assumes "\<not> loadedNotebooks s nb" and "list nb = Inr sources"
  shows "loadNotebookVectorIndex list ingest s nb =
     (None,
      s\<lparr>loadedNotebooks := (loadedNotebooks s) (nb := True),
        vectorStore :=
          foldl (\<lambda>v src. snd (ingest v nb (Name src) (Content src))) (vectorStore s)
            (filter (\<lambda>src. Content src \<noteq> '''') sources),
        store_calls :=
          store_calls s @ [ListSources_call nb]
            @ map (\<lambda>src. IngestText_call nb (Name src) (Content src))
                (filter (\<lambda>src. Content src \<noteq> '''') sources)\<rparr>)"
proof -
  obtain v calls where run: "load_sources ingest nb sources
      (vectorStore s, store_calls s @ [ListSources_call nb]) = (v, calls)"
    by (cases "load_sources ingest nb sources (vectorStore s, store_calls s @ [ListSources_call nb])")
  have calls: "calls = store_calls s @ [ListSources_call nb]
             @ map (\<lambda>src. IngestText_call nb (Name src) (Content src))
                 (filter (\<lambda>src. Content src \<noteq> '''') sources)"
    using load_sources_result [of ingest nb sources "vectorStore s"
        "store_calls s @ [ListSources_call nb]"] run by simp
  have store: "v = foldl (\<lambda>v src. snd (ingest v nb (Name src) (Content src))) (vectorStore s)
            (filter (\<lambda>src. Content src \<noteq> '''') sources)"
    using load_sources_store [of ingest nb sources "vectorStore s"
        "store_calls s @ [ListSources_call nb]"] run by simp
  show ?thesis
    using assms run by (simp add: loadNotebookVectorIndex_def calls store)
qed

text \<open>
  C8. Once a notebook is marked loaded, an invocation of the loader for it returns no
  error and leaves the state as it is: it lists no sources, ingests nothing, and the
  vector store is the one before. A first invocation whose listing succeeds returns no
  error and marks the notebook loaded (and no other); it makes one listing followed by
  exactly one ingestion for each source with content, in order, and the vector store it
  leaves is the store before with each of these sources ingested once, in order; a
  source with empty content is passed over, and an ingestion that fails does not stop
  the load. Any number of invocations in a row then leaves the state of that first
  invocation, vector store included, so no source is ingested twice and no chunk is
  duplicated by loading alone.
\<close>

theorem loader_idempotent:
  "(loadedNotebooks s nb \<longrightarrow> loadNotebookVectorIndex list ingest s nb = (None, s))
   \<and> (\<not> loadedNotebooks s nb \<and> list nb = Inr sources \<longrightarrow>
        fst (loadNotebookVectorIndex list ingest s nb) = None
        \<and> loadedNotebooks (snd (loadNotebookVectorIndex list ingest s nb)) nb
        \<and> loadedNotebooks (snd (loadNotebookVectorIndex list ingest s nb)) =
             (loadedNotebooks s) (nb := True)
        \<and> store_calls (snd (loadNotebookVectorIndex list ingest s nb)) =
             store_calls s @ [ListSources_call nb]
               @ map (\<lambda>src. IngestText_call nb (Name src) (Content src))
                   (filter (\<lambda>src. Content src \<noteq> '''') sources)
        \<and> vectorStore (snd (loadNotebookVectorIndex list ingest s nb)) =
             foldl (\<lambda>v src. snd (ingest v nb (Name src) (Content src))) (vectorStore s)
               (filter (\<lambda>src. Content src \<noteq> '''') sources)
        \<and> (\<forall>m. load_repeatedly list ingest nb (Suc m) s =
                   snd (loadNotebookVectorIndex list ingest s nb))
        \<and> (\<forall>m. vectorStore (load_repeatedly list ingest nb (Suc m) s) =
                   foldl (\<lambda>v src. snd (ingest v nb (Name src) (Content src))) (vectorStore s)
                     (filter (\<lambda>src. Content src \<noteq> '''') sources)))"
proof (intro conjI impI allI)
  assume "loadedNotebooks s nb"
  then show "loadNotebookVectorIndex list ingest s nb = (None, s)"
    by (rule loaded_returns_at_once)
next
  assume a: "\<not> loadedNotebooks s nb \<and> list nb = Inr sources"
  then have first: "loadNotebookVectorIndex list ingest s nb =
     (None,
      s\<lparr>loadedNotebooks := (loadedNotebooks s) (nb := True),
        vectorStore :=
          foldl (\<lambda>v src. snd (ingest v nb (Name src) (Content src))) (vectorStore s)
            (filter (\<lambda>src. Content src \<noteq> '''') sources),
        store_calls :=
          store_calls s @ [ListSources_call nb]
            @ map (\<lambda>src. IngestText_call nb (Name src) (Content src))
                (filter (\<lambda>src. Content src \<noteq> '''') sources)\<rparr>)"
    by (simp add: first_load)
  show "fst (loadNotebookVectorIndex list ingest s nb) = None"
    by (simp add: first)
  show loaded: "loadedNotebooks (snd (loadNotebookVectorIndex list ingest s nb)) nb"
    by (simp add: first)
  show "loadedNotebooks (snd (loadNotebookVectorIndex list ingest s nb)) =
             (loadedNotebooks s) (nb := True)"
    by (simp add: first)
  show "store_calls (snd (loadNotebookVectorIndex list ingest s nb)) =
             store_calls s @ [ListSources_call nb]
               @ map (\<lambda>src. IngestText_call nb (Name src) (Content src))
                   (filter (\<lambda>src. Content src \<noteq> '''') sources)"
    by (simp add: first)
  show store: "vectorStore (snd (loadNotebookVectorIndex list ingest s nb)) =
             foldl (\<lambda>v src. snd (ingest v nb (Name src) (Content src))) (vectorStore s)
               (filter (\<lambda>src. Content src \<noteq> '''') sources)"
    by (simp add: first)
  have again: "load_repeatedly list ingest nb (Suc m) s =
               snd (loadNotebookVectorIndex list ingest s nb)" for m
    using loaded by (simp add: loaded_repeatedly)
  show "load_repeatedly list ingest nb (Suc m) s = snd (loadNotebookVectorIndex list ingest s nb)"
    for m by (rule again)
  show "vectorStore (load_repeatedly list ingest nb (Suc m) s) =
          foldl (\<lambda>v src. snd (ingest v nb (Name src) (Content src))) (vectorStore s)
            (filter (\<lambda>src. Content src \<noteq> '''') sources)" for m
    by (simp only: again store)
qed

theorem loader_idempotent_witness:
  "store_calls
     (load_repeatedly
        (\<lambda>nb. Inr [\<lparr>ID = ''1'', Name = ''a'', Type = ''file'', Content = ''alpha''\<rparr>,
                   \<lparr>ID = ''2'', Name = ''b'', Type = ''file'', Content = ''''\<rparr>,
                   \<lparr>ID = ''3'', Name = ''c'', Type = ''url'', Content = ''gamma''\<rparr>])
        (\<lambda>v nb name content.
           case IngestText (\<lambda>s. [s]) v nb name content of (v', n) \<Rightarrow> (Inr n, v'))
        ''N'' 3
        \<lparr>loadedNotebooks = (\<lambda>nb. False), vectorStore = [], store_calls = []\<rparr>)
   = [ListSources_call ''N'', IngestText_call ''N'' ''a'' ''alpha'',
      IngestText_call ''N'' ''c'' ''gamma'']
   \<and> vectorStore
     (load_repeatedly
        (\<lambda>nb. Inr [\<lparr>ID = ''1'', Name = ''a'', Type = ''file'', Content = ''alpha''\<rparr>,
                   \<lparr>ID = ''2'', Name = ''b'', Type = ''file'', Content = ''''\<rparr>,
                   \<lparr>ID = ''3'', Name = ''c'', Type = ''url'', Content = ''gamma''\<rparr>])
        (\<lambda>v nb name content.
           case IngestText (\<lambda>s. [s]) v nb name content of (v', n) \<Rightarrow> (Inr n, v'))
        ''N'' 3
        \<lparr>loadedNotebooks = (\<lambda>nb. False), vectorStore = [], store_calls = []\<rparr>)
   = [\<lparr>chunk_notebookID = ''N'', chunk_sourceName = ''a'', chunk_text = ''alpha'',
        chunk_index = 0\<rparr>,
      \<lparr>chunk_notebookID = ''N'', chunk_sourceName = ''c'', chunk_text = ''gamma'',
        chunk_index = 0\<rparr>]"
  using loader_idempotent [of
      "\<lparr>loadedNotebooks = (\<lambda>nb. False), vectorStore = [], store_calls = []\<rparr>" "''N''"
      "\<lambda>nb. Inr [\<lparr>ID = ''1'', Name = ''a'', Type = ''file'', Content = ''alpha''\<rparr>,
                   \<lparr>ID = ''2'', Name = ''b'', Type = ''file'', Content = ''''\<rparr>,
                   \<lparr>ID = ''3'', Name = ''c'', Type = ''url'', Content = ''gamma''\<rparr>]"
      "\<lambda>v nb name content.
           case IngestText (\<lambda>s. [s]) v nb name content of (v', n) \<Rightarrow> (Inr n, v')"
      "[\<lparr>ID = ''1'', Name = ''a'', Type = ''file'', Content = ''alpha''\<rparr>,
                   \<lparr>ID = ''2'', Name = ''b'', Type = ''file'', Content = ''''\<rparr>,
                   \<lparr>ID = ''3'', Name = ''c'', Type = ''url'', Content = ''gamma''\<rparr>]"]
  by (simp add: numeral_3_eq_3 IngestText_def del: load_repeatedly.simps)

section \<open>The slide parser returns at least one slide\<close>


lemma strings_Index_Some:
  "strings_Index s substr = Some i \<Longrightarrow>
     i + length substr \<le> length s \<and> take (length substr) (drop i s) = substr"
proof (induction s arbitrary: i)
  case Nil
  then show ?case by (simp split: if_splits)
next
  case (Cons c cs)
  show ?case
  proof (cases "take (length substr) (c # cs) = substr")
    case True
    then have "length (take (length substr) (c # cs)) = length substr"
      by (simp only:)
    then have "length substr \<le> length (c # cs)"
      by (simp only: length_take)
    with True Cons.prems show ?thesis by simp
  next
    case False
    with Cons.prems obtain k where "strings_Index cs substr = Some k" and "i = Suc k"
      by auto
    with Cons.IH show ?thesis by simp
  qed
qed

lemma open_tag_no_bracket: "CHR ''<'' \<notin> set (tl ''<STYLE_INSTRUCTIONS>'')"
  by simp

lemma style_end_after_tag:
  assumes s: "strings_Index content ''<STYLE_INSTRUCTIONS>'' = Some styleStart"
    and e: "strings_Index content ''</STYLE_INSTRUCTIONS>'' = Some styleEnd"
    and gt: "styleEnd > styleStart"
  shows "styleStart + 20 \<le> styleEnd \<and> styleEnd \<le> length content"
proof -
  let ?open = "''<STYLE_INSTRUCTIONS>''" and ?close = "''</STYLE_INSTRUCTIONS>''"
  have len_open: "length ?open = 20" and len_close: "length ?close = 21"
    by simp_all
  from strings_Index_Some [OF s, unfolded len_open]
  have s1: "styleStart + 20 \<le> length content" and s2: "take 20 (drop styleStart content) = ?open"
    by simp_all
  from strings_Index_Some [OF e, unfolded len_close]
  have e1: "styleEnd + 21 \<le> length content" and e2: "take 21 (drop styleEnd content) = ?close"
    by simp_all
  have at_end: "content ! styleEnd = CHR ''<''"
  proof -
    have "take 21 (drop styleEnd content) ! 0 = content ! styleEnd"
      using e1 by simp
    then show ?thesis by (simp add: e2)
  qed
  have "\<not> styleEnd < styleStart + 20"
  proof
    assume lt: "styleEnd < styleStart + 20"
    define k where "k = styleEnd - styleStart"
    have k: "0 < k" "k < 20" "styleEnd = styleStart + k"
      using gt lt by (simp_all add: k_def)
    have "take 20 (drop styleStart content) ! k = content ! styleEnd"
      using k s1 by simp
    then have "?open ! k = CHR ''<''"
      by (simp only: s2 at_end)
    moreover have "?open ! k = tl ?open ! (k - 1)"
      using k(1) by (cases k) simp_all
    moreover have "k - 1 < length (tl ?open)"
      using k by simp
    ultimately have "CHR ''<'' \<in> set (tl ?open)"
      by (metis nth_mem)
    with open_tag_no_bracket show False by blast
  qed
  with e1 show ?thesis by simp
qed

lemma extract_style_total: "\<exists>style. extract_style content = Some style"
proof (cases "strings_Index content ''<STYLE_INSTRUCTIONS>''")
  case None
  then show ?thesis by (simp add: extract_style_def)
next
  case (Some styleStart)
  note s = this
  show ?thesis
  proof (cases "strings_Index content ''</STYLE_INSTRUCTIONS>''")
    case None
    then show ?thesis by (simp add: extract_style_def s)
  next
    case (Some styleEnd)
    show ?thesis
    proof (cases "styleEnd > styleStart")
      case True
      from style_end_after_tag [OF s Some True] show ?thesis
        by (simp add: extract_style_def s Some True go_slice_def)
    next
      case False
      then show ?thesis by (simp add: extract_style_def s Some)
    qed
  qed
qed

lemma heading_loop_total:
  "matches_in_order from (length content) indices \<Longrightarrow>
     \<exists>result. heading_loop ToLower content style indices slides = Some result"
proof (induction indices arbitrary: "from" slides)
  case Nil
  then show ?case by simp
next
  case (Cons m rest)
  obtain start "end" where m: "m = (start, end)" by (cases m)
  from Cons.prems m have bounds: "start \<le> end" "end \<le> length content"
    and tail: "matches_in_order end (length content) rest"
    by simp_all
  have next_ok: "start \<le> (case rest of [] \<Rightarrow> length content | (next, _) # _ \<Rightarrow> next)
    \<and> (case rest of [] \<Rightarrow> length content | (next, _) # _ \<Rightarrow> next) \<le> length content"
    using bounds tail by (cases rest) auto
  from Cons.IH [OF tail] show ?case
    using next_ok by (simp add: m go_slice_def Let_def)
qed

lemma ParsePPTSlides_result:
  assumes "extract_style content = Some style"
    and "heading_loop ToLower content style indices [] = Some found"
  shows "ParsePPTSlides ToLower indices content =
     Some (if found \<noteq> [] then found
           else if marker_slides style content \<noteq> [] then marker_slides style content
           else [Slide style content])"
  using assms by (simp add: ParsePPTSlides_def Let_def)

lemma marker_slides_none:
  "\<not> strings_Contains content split_marker_first \<Longrightarrow>
   \<not> strings_Contains content split_marker_second \<Longrightarrow> marker_slides style content = []"
  by (simp add: marker_slides_def)

text \<open>
  C9. Whatever the text, and whatever matches the heading pattern has in it,
  \<^verbatim>\<open>ParsePPTSlides\<close> returns (it does not panic at a slice) and the slides it returns
  are not empty; \<open>matches_in_order\<close> is the promise of Go's \<^verbatim>\<open>regexp\<close> that the matches lie in
  the text, one after the other. For a text with no heading match and with neither
  marker of a narrative goal, it returns exactly one slide, whose content is the whole
  text (its style is the extracted style block, empty when there is none).
\<close>

theorem ParsePPTSlides_nonempty:
  "(matches_in_order 0 (length content) indices \<longrightarrow>
      (\<exists>slides. ParsePPTSlides ToLower indices content = Some slides \<and> slides \<noteq> []))
   \<and> (\<not> strings_Contains content split_marker_first
        \<and> \<not> strings_Contains content split_marker_second \<longrightarrow>
      (\<exists>style. extract_style content = Some style
         \<and> ParsePPTSlides ToLower [] content = Some [Slide style content]))"
proof (intro conjI impI)
  assume ordered: "matches_in_order 0 (length content) indices"
  obtain style where style: "extract_style content = Some style"
    using extract_style_total by blast
  obtain found where found: "heading_loop ToLower content style indices [] = Some found"
    using heading_loop_total [OF ordered] by blast
  show "\<exists>slides. ParsePPTSlides ToLower indices content = Some slides \<and> slides \<noteq> []"
    by (simp add: ParsePPTSlides_result [OF style found])
next
  assume none: "\<not> strings_Contains content split_marker_first
        \<and> \<not> strings_Contains content split_marker_second"
  obtain style where style: "extract_style content = Some style"
    using extract_style_total by blast
  have found: "heading_loop ToLower content style [] [] = Some []" by simp
  have "ParsePPTSlides ToLower [] content = Some [Slide style content]"
    using none by (simp add: ParsePPTSlides_result [OF style found] marker_slides_none)
  with style show "\<exists>style. extract_style content = Some style
         \<and> ParsePPTSlides ToLower [] content = Some [Slide style content]"
    by blast
qed

theorem ParsePPTSlides_nonempty_witness:
  "ParsePPTSlides (\<lambda>s. s) [] ''<STYLE_INSTRUCTIONS>flat</STYLE_INSTRUCTIONS> plain text''
     = Some [Slide ''flat'' ''<STYLE_INSTRUCTIONS>flat</STYLE_INSTRUCTIONS> plain text'']
   \<and> (\<exists>slides. ParsePPTSlides (\<lambda>s. s) [(0, 7), (25, 32)]
                  ''Slide 1 narrative goal a Slide 2 narrative goal b'' = Some slides
          \<and> slides \<noteq> [])"
  (is "ParsePPTSlides ?low [] ?c1 = Some [Slide ?st ?c1] \<and> ?B")
proof -
  have style: "extract_style ?c1 = Some ?st"
    by code_simp
  have none: "\<not> strings_Contains ?c1 split_marker_first
        \<and> \<not> strings_Contains ?c1 split_marker_second"
    by code_simp
  have ordered: "matches_in_order 0 (length ''Slide 1 narrative goal a Slide 2 narrative goal b'')
                   [(0, 7), (25, 32)]"
    by simp
  have "ParsePPTSlides ?low [] ?c1 = Some [Slide ?st ?c1]"
    using ParsePPTSlides_nonempty [of ?c1 "[]" ?low, THEN conjunct2] none style by auto
  moreover have ?B
    using ParsePPTSlides_nonempty [of "''Slide 1 narrative goal a Slide 2 narrative goal b''"
        "[(0, 7), (25, 32)]" ?low, THEN conjunct1] ordered by blast
  ultimately show ?thesis by (rule conjI)
qed

section \<open>The note of an infograph\<close>


lemma build_note_infograph:
  assumes "req_Type req = ''infograph''"
  shows "build_note env notebookID userID req content =
     (case t_GenerateImage env 0 (t_ImageModel env) (content @ ''\<newline>\<newline>'' @ language_note) userID of
        Inl err \<Rightarrow>
          Some (deck_note notebookID req content (''image_error'', MString err),
                [(t_ImageModel env, content @ ''\<newline>\<newline>'' @ language_note, userID)])
      | Inr imagePath \<Rightarrow>
          Some (deck_note notebookID req ''''
                  (''image_url'', MString (''/api/files/'' @ filepath_Base imagePath)),
                [(t_ImageModel env, content @ ''\<newline>\<newline>'' @ language_note, userID)]))"
  using assms by (simp add: build_note_def deck_note_def Let_def split: sum.splits)

text \<open>
  C10, as the claim states it, fails: the generation returns the empty text and the
  image provider fails with \<open>boom\<close>. The request succeeds and the saved note has an
  empty content, although no image was generated: \<^verbatim>\<open>image_error\<close> is set and
  \<^verbatim>\<open>image_url\<close> is not.
\<close>

theorem infograph_empty_content_counterexample:
  "handleTransform (example_env ''infograph'' '''' (\<lambda>k. Inl ''boom'')) ''nb'' ''u1''
     = (JSON 200 (Inr \<lparr>note_NotebookID = ''nb'', note_Title = getTitleForType ''infograph'',
                        note_Content = '''', note_Type = ''infograph'', note_SourceIDs = [''s1''],
                        note_Metadata = [''length'' \<mapsto> MString ''short'',
                                         ''format'' \<mapsto> MString ''markdown'',
                                         ''image_error'' \<mapsto> MString ''boom'']\<rparr>),
        [(''m'', ''\<newline>\<newline>'' @ language_note, ''u1'')])
   \<and> t_GenerateImage (example_env ''infograph'' '''' (\<lambda>k. Inl ''boom'')) 0 ''m''
        (''\<newline>\<newline>'' @ language_note) ''u1'' = Inl ''boom''"
proof -
  have ty: "req_Type (example_request ''infograph'') = ''infograph''"
    by (simp add: example_request_def)
  have env: "t_ImageModel (example_env ''infograph'' '''' (\<lambda>k. Inl ''boom'')) = ''m''"
    "t_GenerateImage (example_env ''infograph'' '''' (\<lambda>k. Inl ''boom'')) k m p u = Inl ''boom''"
    "t_CreateNote (example_env ''infograph'' '''' (\<lambda>k. Inl ''boom'')) n = None" for k m p u n
    by (simp_all add: example_env_def)
  show ?thesis
    by (simp add: handleTransform_def example_prepared build_note_infograph [OF ty] env)
       (simp add: deck_note_def example_request_def)
qed

text \<open>
  C10, amended. An infograph request that has reached the generated text makes one call
  of the image provider, with the generated text followed by the note on the language.
  When the call succeeds, the content of the note is empty and the metadata carries the
  web path of the image under \<^verbatim>\<open>image_url\<close>, and no \<^verbatim>\<open>image_error\<close>. When the call
  fails, the content of the note is the generated text, unchanged (so it is empty only
  if the generated text is), and the metadata carries the message of the failure under
  \<^verbatim>\<open>image_error\<close>, and no \<^verbatim>\<open>image_url\<close>. In both cases the note is the answer, with
  status 200, when the store saves it.
\<close>

theorem infograph_note_content:
  assumes "prepare_transform env = Inr (req, content)"
    and "req_Type req = ''infograph''"
  shows "(\<forall>imagePath.
            t_GenerateImage env 0 (t_ImageModel env) (content @ ''\<newline>\<newline>'' @ language_note) userID
              = Inr imagePath \<longrightarrow>
            build_note env notebookID userID req content =
              Some (deck_note notebookID req ''''
                      (''image_url'', MString (''/api/files/'' @ filepath_Base imagePath)),
                    [(t_ImageModel env, content @ ''\<newline>\<newline>'' @ language_note, userID)])
            \<and> (t_CreateNote env
                  (deck_note notebookID req ''''
                     (''image_url'', MString (''/api/files/'' @ filepath_Base imagePath))) = None
                \<longrightarrow> fst (handleTransform env notebookID userID) =
                    JSON 200 (Inr (deck_note notebookID req ''''
                       (''image_url'', MString (''/api/files/'' @ filepath_Base imagePath))))))
       \<and> (\<forall>err.
            t_GenerateImage env 0 (t_ImageModel env) (content @ ''\<newline>\<newline>'' @ language_note) userID
              = Inl err \<longrightarrow>
            build_note env notebookID userID req content =
              Some (deck_note notebookID req content (''image_error'', MString err),
                    [(t_ImageModel env, content @ ''\<newline>\<newline>'' @ language_note, userID)])
            \<and> (t_CreateNote env
                  (deck_note notebookID req content (''image_error'', MString err)) = None
                \<longrightarrow> fst (handleTransform env notebookID userID) =
                    JSON 200 (Inr (deck_note notebookID req content
                                     (''image_error'', MString err)))))
       \<and> (\<forall>note calls. build_note env notebookID userID req content = Some (note, calls) \<longrightarrow>
            (note_Content note = '''' \<longleftrightarrow>
               note_Metadata note ''image_url'' \<noteq> None \<or> content = ''''))"
proof -
  note built = build_note_infograph [OF assms(2), of env notebookID userID content]
  have ok: "\<forall>imagePath.
            t_GenerateImage env 0 (t_ImageModel env) (content @ ''\<newline>\<newline>'' @ language_note) userID
              = Inr imagePath \<longrightarrow>
            build_note env notebookID userID req content =
              Some (deck_note notebookID req ''''
                      (''image_url'', MString (''/api/files/'' @ filepath_Base imagePath)),
                    [(t_ImageModel env, content @ ''\<newline>\<newline>'' @ language_note, userID)])
            \<and> (t_CreateNote env
                  (deck_note notebookID req ''''
                     (''image_url'', MString (''/api/files/'' @ filepath_Base imagePath))) = None
                \<longrightarrow> fst (handleTransform env notebookID userID) =
                    JSON 200 (Inr (deck_note notebookID req ''''
                       (''image_url'', MString (''/api/files/'' @ filepath_Base imagePath)))))"
    using assms(1) built by (simp add: handleTransform_def)
  have failed: "\<forall>err.
            t_GenerateImage env 0 (t_ImageModel env) (content @ ''\<newline>\<newline>'' @ language_note) userID
              = Inl err \<longrightarrow>
            build_note env notebookID userID req content =
              Some (deck_note notebookID req content (''image_error'', MString err),
                    [(t_ImageModel env, content @ ''\<newline>\<newline>'' @ language_note, userID)])
            \<and> (t_CreateNote env
                  (deck_note notebookID req content (''image_error'', MString err)) = None
                \<longrightarrow> fst (handleTransform env notebookID userID) =
                    JSON 200 (Inr (deck_note notebookID req content
                                     (''image_error'', MString err))))"
    using assms(1) built by (simp add: handleTransform_def)
  have content: "\<forall>note calls. build_note env notebookID userID req content = Some (note, calls) \<longrightarrow>
            (note_Content note = '''' \<longleftrightarrow>
               note_Metadata note ''image_url'' \<noteq> None \<or> content = '''')"
    using built by (auto simp: deck_note_def split: sum.splits)
  from ok failed content show ?thesis by blast
qed

theorem infograph_note_content_witness:
  "handleTransform
      (example_env ''infograph'' ''a chart'' (\<lambda>k. Inr ''data/uploads/u1/infograph_7.png''))
      ''nb'' ''u1''
     = (JSON 200 (Inr (deck_note ''nb'' (example_request ''infograph'') ''''
                         (''image_url'', MString ''/api/files/infograph_7.png''))),
        [(''m'', ''a chart\<newline>\<newline>'' @ language_note, ''u1'')])
   \<and> handleTransform (example_env ''infograph'' ''a chart'' (\<lambda>k. Inl ''boom'')) ''nb'' ''u1''
     = (JSON 200 (Inr (deck_note ''nb'' (example_request ''infograph'') ''a chart''
                         (''image_error'', MString ''boom''))),
        [(''m'', ''a chart\<newline>\<newline>'' @ language_note, ''u1'')])"
  (is "handleTransform ?ok ?nb ?u = (?a1, ?c) \<and> handleTransform ?bad ?nb ?u = (?a2, ?c)")
proof -
  have ty: "req_Type (example_request ''infograph'') = ''infograph''"
    by (simp add: example_request_def)
  have base: "filepath_Base ''data/uploads/u1/infograph_7.png'' = ''infograph_7.png''"
    by (simp add: filepath_Base_def)
  have env: "t_ImageModel ?ok = ''m''" "t_ImageModel ?bad = ''m''"
    "t_GenerateImage ?ok k m p u = Inr ''data/uploads/u1/infograph_7.png''"
    "t_GenerateImage ?bad k m p u = Inl ''boom''"
    "t_CreateNote ?ok n = None" "t_CreateNote ?bad n = None" for k m p u n
    by (simp_all add: example_env_def)
  have "handleTransform ?ok ?nb ?u = (?a1, ?c)"
    using infograph_note_content [where userID = ?u and notebookID = ?nb,
        OF example_prepared ty, THEN conjunct1, THEN spec,
        where x = "''data/uploads/u1/infograph_7.png''"]
    by (simp add: env base handleTransform_def example_prepared)
  moreover have "handleTransform ?bad ?nb ?u = (?a2, ?c)"
    using infograph_note_content [where userID = ?u and notebookID = ?nb,
        OF example_prepared ty, THEN conjunct2, THEN conjunct1, THEN spec,
        where x = "''boom''"]
    by (simp add: env handleTransform_def example_prepared)
  ultimately show ?thesis by (rule conjI)
qed

end
